theory Spec2Isabelle
  imports Main
begin

section \<open>The certificate-authority trust store (lib/services/local/trust.go)\<close>

text \<open>
  The store is a stateless wrapper over a versioned key-value backend. Every operation
  of \<^verbatim>\<open>trust.go\<close> is embedded below as a function that takes the backend state and
  returns its result together with the backend state after the call. Go's \<^verbatim>\<open>error\<close>
  results are values of the datatype \<open>error\<close>; \<^verbatim>\<open>trace.Wrap\<close> keeps the kind of the
  error it wraps and is therefore the identity here.
\<close>

subsection \<open>Errors\<close>

text \<open>
  The error kinds of the trace library that the store produces or tests for. Each
  constructor keeps the format string and the arguments of the call that built the
  error. \<open>Errorf\<close> is \<^verbatim>\<open>trace.Errorf\<close>: an error that carries only a message and
  belongs to none of the typed kinds. \<open>ErrConditionFailed\<close> is the sentinel
  \<^verbatim>\<open>backend.ErrConditionFailed\<close> returned by a failed atomic batch.
  \<open>NilPointerPanic\<close> is the run-time panic of a method call on a nil authority.
\<close>

datatype error =
    NotFound string "string list"
  | AlreadyExists string "string list"
  | CompareFailed string "string list"
  | BadParameter string "string list"
  | Errorf string "string list"
  | ErrConditionFailed
  | NilPointerPanic

fun IsNotFound :: "error \<Rightarrow> bool" where
  "IsNotFound (NotFound f a) = True"
| "IsNotFound e = False"

fun IsCompareFailed :: "error \<Rightarrow> bool" where
  "IsCompareFailed (CompareFailed f a) = True"
| "IsCompareFailed e = False"

fun IsAlreadyExists :: "error \<Rightarrow> bool" where
  "IsAlreadyExists (AlreadyExists f a) = True"
| "IsAlreadyExists e = False"

subsection \<open>Backend items, conditions and actions\<close>

type_synonym bytes = string
type_synonym key = string

text \<open>
  \<^verbatim>\<open>backend.Item\<close>. Revisions are opaque tokens assigned by the backend; they are
  numbers here, \<open>0\<close> being the blank revision of an item that was never stored. The
  expiry is an instant, \<open>0\<close> being the zero time.
\<close>

record item =
  Key :: key
  Value :: bytes
  Expires :: nat
  ID :: nat
  Revision :: nat

record lease =
  LeaseKey :: key
  LeaseID :: nat
  LeaseRevision :: nat

datatype condition = NotExists | Exists | RevisionEquals nat | Whatever

datatype action = Put item | Delete

datatype conditional_action = ConditionalAction key condition action

text \<open>Every mutating request the store sends to the backend, in the order sent.\<close>

datatype call =
    PutCall item
  | ConditionalUpdateCall item
  | CompareAndSwapCall item item
  | AtomicWriteCall "conditional_action list"
  | DeleteRangeCall key key

record backend =
  items :: "item list"
  clock :: nat
  journal :: "call list"

subsection \<open>Keys\<close>

text \<open>
  Modelled from the spec: the key helpers of package \<^verbatim>\<open>backend\<close> (\<^verbatim>\<open>Key\<close>,
  \<^verbatim>\<open>ExactKey\<close>, \<^verbatim>\<open>RangeEnd\<close>) are not part of the sources at hand. Keys are
  lexicographically ordered bytes; a key joins its parts with the separator, starting
  with a separator; the exact key of a prefix ends with a separator; the range end of a
  key is its upper bound as a prefix, obtained by incrementing the last byte that is
  not \<open>0xff\<close> and dropping what follows.
\<close>

definition Separator :: char where
  "Separator = CHR ''/''"

fun Join :: "string list \<Rightarrow> string \<Rightarrow> string" where
  "Join [] sep = []"
| "Join [p] sep = p"
| "Join (p # q # ps) sep = p @ sep @ Join (q # ps) sep"

definition backendKey :: "string list \<Rightarrow> key" where
  "backendKey parts = Join ([] # parts) [Separator]"

definition ExactKey :: "string list \<Rightarrow> key" where
  "ExactKey parts = backendKey parts @ [Separator]"

definition noEnd :: key where
  "noEnd = [char_of (0::nat)]"

fun incr_last :: "string \<Rightarrow> string option" where
  "incr_last [] = None"
| "incr_last (c # cs) =
     (if (of_char c :: nat) < 255 then Some (char_of (of_char c + (1::nat)) # cs)
      else incr_last cs)"

definition RangeEnd :: "key \<Rightarrow> key" where
  "RangeEnd k = (case incr_last (rev k) of None \<Rightarrow> noEnd | Some r \<Rightarrow> rev r)"

fun bytes_less :: "key \<Rightarrow> key \<Rightarrow> bool" where
  "bytes_less [] [] = False"
| "bytes_less [] (y # ys) = True"
| "bytes_less (x # xs) [] = False"
| "bytes_less (x # xs) (y # ys) =
     ((of_char x :: nat) < of_char y \<or> (x = y \<and> bytes_less xs ys))"

definition in_range :: "key \<Rightarrow> key \<Rightarrow> key \<Rightarrow> bool" where
  "in_range startKey endKey k \<longleftrightarrow> \<not> bytes_less k startKey \<and> bytes_less k endKey"

subsection \<open>The backend\<close>

text \<open>
  Modelled from the spec: the backend engine is an external collaborator of which only
  the contract is given. It is a store of revisioned items with Get, Put, a prefix range
  scan, a range delete, a single-key compare-and-swap, a revision-conditioned update,
  and an atomic batch in which every action's precondition is checked and every effect
  applied as one indivisible unit. Every successful write gives the written item a
  fresh revision and resource id taken from the backend's clock; the items written by
  one atomic batch share one revision. A Put inside a batch is stored under the key of
  its action. The compare-and-swap succeeds when the key holds an item whose value is
  the value of the expected item; the conditional update succeeds when the key holds an
  item whose revision is the revision of the item given. A failed request stores
  nothing. Items are kept in key order. Expiry is carried as data: the passing of time
  is not modelled. The journal records every mutating request received, failed ones
  included; reads are not recorded.
\<close>

definition lookup :: "key \<Rightarrow> item list \<Rightarrow> item option" where
  "lookup k xs = find (\<lambda>it. Key it = k) xs"

definition remove :: "key \<Rightarrow> item list \<Rightarrow> item list" where
  "remove k xs = filter (\<lambda>it. Key it \<noteq> k) xs"

fun insert_item :: "item \<Rightarrow> item list \<Rightarrow> item list" where
  "insert_item it [] = [it]"
| "insert_item it (x # xs) =
     (if bytes_less (Key it) (Key x) then it # x # xs else x # insert_item it xs)"

definition store :: "key \<Rightarrow> item \<Rightarrow> nat \<Rightarrow> item list \<Rightarrow> item list" where
  "store k it r xs = insert_item (it\<lparr>Key := k, ID := r, Revision := r\<rparr>) (remove k xs)"

definition NoLimit :: nat where
  "NoLimit = 0"

definition Get :: "key \<Rightarrow> backend \<Rightarrow> (error + item) \<times> backend" where
  "Get k s =
     (case lookup k (items s) of
        None \<Rightarrow> (Inl (NotFound ''key %q is not found'' [k]), s)
      | Some it \<Rightarrow> (Inr it, s))"

definition GetRange :: "key \<Rightarrow> key \<Rightarrow> nat \<Rightarrow> backend \<Rightarrow> (error + item list) \<times> backend" where
  "GetRange startKey endKey limit s =
     (let found = filter (\<lambda>it. in_range startKey endKey (Key it)) (items s)
      in (Inr (if limit = NoLimit then found else take limit found), s))"

definition DeleteRange :: "key \<Rightarrow> key \<Rightarrow> backend \<Rightarrow> (error + unit) \<times> backend" where
  "DeleteRange startKey endKey s =
     (Inr (),
      s\<lparr>items := filter (\<lambda>it. \<not> in_range startKey endKey (Key it)) (items s),
        journal := journal s @ [DeleteRangeCall startKey endKey]\<rparr>)"

definition BackendPut :: "item \<Rightarrow> backend \<Rightarrow> (error + lease) \<times> backend" where
  "BackendPut it s =
     (Inr \<lparr>LeaseKey = Key it, LeaseID = clock s, LeaseRevision = clock s\<rparr>,
      s\<lparr>items := store (Key it) it (clock s) (items s),
        clock := Suc (clock s),
        journal := journal s @ [PutCall it]\<rparr>)"

definition ErrIncorrectRevision :: error where
  "ErrIncorrectRevision = CompareFailed ''resource revision does not match'' []"

definition ConditionalUpdate :: "item \<Rightarrow> backend \<Rightarrow> (error + lease) \<times> backend" where
  "ConditionalUpdate it s =
     (let s1 = s\<lparr>journal := journal s @ [ConditionalUpdateCall it]\<rparr>
      in case lookup (Key it) (items s) of
           None \<Rightarrow> (Inl ErrIncorrectRevision, s1)
         | Some cur \<Rightarrow>
             if Revision cur = Revision it
             then (Inr \<lparr>LeaseKey = Key it, LeaseID = clock s, LeaseRevision = clock s\<rparr>,
                   s1\<lparr>items := store (Key it) it (clock s) (items s), clock := Suc (clock s)\<rparr>)
             else (Inl ErrIncorrectRevision, s1))"

definition CompareAndSwap :: "item \<Rightarrow> item \<Rightarrow> backend \<Rightarrow> (error + lease) \<times> backend" where
  "CompareAndSwap expected replaceWith s =
     (let s1 = s\<lparr>journal := journal s @ [CompareAndSwapCall expected replaceWith]\<rparr>
      in if Key expected \<noteq> Key replaceWith
         then (Inl (BadParameter ''expected and replaceWith keys should match'' []), s1)
         else case lookup (Key expected) (items s) of
                None \<Rightarrow> (Inl (CompareFailed ''key %q is not found'' [Key expected]), s1)
              | Some cur \<Rightarrow>
                  if Value cur = Value expected
                  then (Inr \<lparr>LeaseKey = Key replaceWith, LeaseID = clock s,
                             LeaseRevision = clock s\<rparr>,
                        s1\<lparr>items := store (Key replaceWith) replaceWith (clock s) (items s),
                           clock := Suc (clock s)\<rparr>)
                  else (Inl (CompareFailed ''current value does not match expected for %q''
                               [Key expected]), s1))"

fun holds :: "condition \<Rightarrow> item option \<Rightarrow> bool" where
  "holds Whatever cur = True"
| "holds Exists cur = (cur \<noteq> None)"
| "holds NotExists cur = (cur = None)"
| "holds (RevisionEquals r) cur = (case cur of None \<Rightarrow> False | Some it \<Rightarrow> Revision it = r)"

fun condition_holds :: "item list \<Rightarrow> conditional_action \<Rightarrow> bool" where
  "condition_holds xs (ConditionalAction k c a) = holds c (lookup k xs)"

fun apply_action :: "nat \<Rightarrow> item list \<Rightarrow> conditional_action \<Rightarrow> item list" where
  "apply_action r xs (ConditionalAction k c (Put it)) = store k it r xs"
| "apply_action r xs (ConditionalAction k c Delete) = remove k xs"

definition AtomicWrite :: "conditional_action list \<Rightarrow> backend \<Rightarrow> (error + nat) \<times> backend" where
  "AtomicWrite condacts s =
     (let s1 = s\<lparr>journal := journal s @ [AtomicWriteCall condacts]\<rparr>
      in if list_all (condition_holds (items s)) condacts
         then (Inr (clock s),
               s1\<lparr>items := foldl (apply_action (clock s)) (items s) condacts,
                  clock := Suc (clock s)\<rparr>)
         else (Inl ErrConditionFailed, s1))"

subsection \<open>Certificate authorities and the services the store consumes\<close>

text \<open>
  \<^verbatim>\<open>types.CertAuthID\<close> and \<^verbatim>\<open>types.CertAuthority\<close>. The authority is an
  interface in the source; its fields carry the names of the getters the store calls.
\<close>

record cert_auth_id =
  Type :: string
  DomainName :: string

record cert_authority =
  GetType :: string
  GetName :: string
  SigningKeys :: "bytes list"
  GetRoleMap :: "(string \<times> string list) list"
  GetRevision :: nat
  GetResourceID :: nat
  Expiry :: nat

definition GetID :: "cert_authority \<Rightarrow> cert_auth_id" where
  "GetID ca = \<lparr>Type = GetType ca, DomainName = GetName ca\<rparr>"

text \<open>
  Modelled from the spec: \<^verbatim>\<open>types.RemoveCASecrets\<close> is not part of the sources at
  hand; it strips the secret key material from an authority.
\<close>

definition RemoveCASecrets :: "cert_authority \<Rightarrow> cert_authority" where
  "RemoveCASecrets ca = ca\<lparr>SigningKeys := []\<rparr>"

text \<open>
  The serializer, the validator, the equivalence predicate and the structural checks of
  identities and types (\<^verbatim>\<open>CertAuthID.Check\<close>, \<^verbatim>\<open>CertAuthType.Check\<close>) are
  external collaborators. The store is parametric in them: they are the fields of a
  record passed to every operation. They are functions of their arguments alone: they
  neither read the backend nor change the authority they are given.
\<close>

record services =
  ValidateCertAuthority :: "cert_authority \<Rightarrow> error option"
  MarshalCertAuthority :: "cert_authority \<Rightarrow> error + bytes"
  UnmarshalCertAuthority :: "bytes \<Rightarrow> error + cert_authority"
  CertAuthoritiesEquivalent :: "cert_authority \<Rightarrow> cert_authority \<Rightarrow> bool"
  CheckID :: "cert_auth_id \<Rightarrow> error option"
  CheckType :: "string \<Rightarrow> error option"

text \<open>
  Modelled from the spec: unmarshalling with the options \<^verbatim>\<open>WithResourceID\<close>,
  \<^verbatim>\<open>WithExpires\<close> and \<^verbatim>\<open>WithRevision\<close> attaches the resource id, the expiry and
  the revision of the backend item to the decoded authority.
\<close>

definition UnmarshalItem :: "services \<Rightarrow> item \<Rightarrow> error + cert_authority" where
  "UnmarshalItem env it =
     (case UnmarshalCertAuthority env (Value it) of
        Inl err \<Rightarrow> Inl err
      | Inr ca \<Rightarrow> Inr (ca\<lparr>GetResourceID := ID it, Expiry := Expires it,
                          GetRevision := Revision it\<rparr>))"

subsection \<open>The key scheme\<close>

definition authoritiesPrefix :: string where
  "authoritiesPrefix = ''authorities''"

definition deactivatedPrefix :: string where
  "deactivatedPrefix = ''deactivated''"

definition activeKey :: "cert_auth_id \<Rightarrow> key" where
  "activeKey cid = backendKey [authoritiesPrefix, Type cid, DomainName cid]"

definition inactiveKey :: "cert_auth_id \<Rightarrow> key" where
  "inactiveKey cid = backendKey [authoritiesPrefix, deactivatedPrefix, Type cid, DomainName cid]"

subsection \<open>Operations of the store\<close>

definition DeleteAllCertAuthorities :: "string \<Rightarrow> backend \<Rightarrow> (error + unit) \<times> backend" where
  "DeleteAllCertAuthorities caType s =
     (let startKey = ExactKey [authoritiesPrefix, caType]
      in DeleteRange startKey (RangeEnd startKey) s)"

text \<open>
  The loop of \<^verbatim>\<open>CreateCertAuthorities\<close>: it collects the cluster names without
  repetition and two conditional actions per authority, and returns at the first
  authority that fails validation or serialization.
\<close>

fun create_condacts ::
  "services \<Rightarrow> cert_authority list \<Rightarrow> conditional_action list \<Rightarrow> string list \<Rightarrow>
   error + (conditional_action list \<times> string list)" where
  "create_condacts env [] condacts clusterNames = Inr (condacts, clusterNames)"
| "create_condacts env (ca # cas) condacts clusterNames =
     (let names = (if GetName ca \<in> set clusterNames then clusterNames
                   else clusterNames @ [GetName ca])
      in case ValidateCertAuthority env ca of
           Some err \<Rightarrow> Inl err
         | None \<Rightarrow>
             (case MarshalCertAuthority env ca of
                Inl err \<Rightarrow> Inl err
              | Inr v \<Rightarrow>
                  create_condacts env cas
                    (condacts @
                      [ConditionalAction (activeKey (GetID ca)) NotExists
                         (Put \<lparr>Key = [], Value = v, Expires = Expiry ca, ID = 0, Revision = 0\<rparr>),
                       ConditionalAction (inactiveKey (GetID ca)) Whatever Delete])
                    names))"

definition CreateCertAuthorities ::
  "services \<Rightarrow> cert_authority list \<Rightarrow> backend \<Rightarrow> (error + unit) \<times> backend" where
  "CreateCertAuthorities env cas s =
     (case create_condacts env cas [] [] of
        Inl err \<Rightarrow> (Inl err, s)
      | Inr (condacts, clusterNames) \<Rightarrow>
          (case AtomicWrite condacts s of
             (Inl err, s1) \<Rightarrow>
               if err = ErrConditionFailed
               then (Inl (AlreadyExists ''one or more CAs from cluster(s) %q already exist''
                            [Join clusterNames '','']), s1)
               else (Inl err, s1)
           | (Inr r, s1) \<Rightarrow> (Inr (), s1)))"

definition CreateCertAuthority ::
  "services \<Rightarrow> cert_authority \<Rightarrow> backend \<Rightarrow> (error + unit) \<times> backend" where
  "CreateCertAuthority env ca s = CreateCertAuthorities env [ca] s"

definition setSigningKeys :: "cert_authority \<Rightarrow> bool \<Rightarrow> cert_authority" where
  "setSigningKeys ca loadSigningKeys = (if loadSigningKeys then ca else RemoveCASecrets ca)"

definition GetCertAuthority ::
  "services \<Rightarrow> cert_auth_id \<Rightarrow> bool \<Rightarrow> backend \<Rightarrow> (error + cert_authority) \<times> backend" where
  "GetCertAuthority env cid loadSigningKeys s =
     (case CheckID env cid of
        Some err \<Rightarrow> (Inl err, s)
      | None \<Rightarrow>
          (case Get (activeKey cid) s of
             (Inl err, s1) \<Rightarrow> (Inl err, s1)
           | (Inr it, s1) \<Rightarrow>
               (case UnmarshalItem env it of
                  Inl err \<Rightarrow> (Inl err, s1)
                | Inr ca \<Rightarrow>
                    (case ValidateCertAuthority env ca of
                       Some err \<Rightarrow> (Inl err, s1)
                     | None \<Rightarrow> (Inr (setSigningKeys ca loadSigningKeys), s1)))))"

definition UpsertCertAuthority ::
  "services \<Rightarrow> cert_authority \<Rightarrow> backend \<Rightarrow> (error + unit) \<times> backend" where
  "UpsertCertAuthority env ca s =
     (case ValidateCertAuthority env ca of
        Some err \<Rightarrow> (Inl err, s)
      | None \<Rightarrow>
          (case GetCertAuthority env (GetID ca) True s of
             (got, s1) \<Rightarrow>
               if (case got of Inr existing \<Rightarrow> CertAuthoritiesEquivalent env existing ca
                   | Inl err \<Rightarrow> False)
               then (Inr (), s1)
               else
                 (case MarshalCertAuthority env ca of
                    Inl err \<Rightarrow> (Inl err, s1)
                  | Inr v \<Rightarrow>
                      (case BackendPut \<lparr>Key = activeKey (GetID ca), Value = v,
                                         Expires = Expiry ca, ID = GetResourceID ca,
                                         Revision = GetRevision ca\<rparr> s1 of
                         (Inl err, s2) \<Rightarrow> (Inl err, s2)
                       | (Inr l, s2) \<Rightarrow> (Inr (), s2)))))"

text \<open>
  \<^verbatim>\<open>UpdateCertAuthority\<close> is the one operation that calls setters on an authority:
  it clones its argument and sets the revision and the resource id of the clone.
  Authorities are objects behind interface values in the source, so this operation is
  modelled over an object heap: a reference is an index into the list of allocated
  authorities, \<^verbatim>\<open>Clone\<close> allocates, and a setter updates the object in place. A
  reference outside the heap is the nil authority.
\<close>

type_synonym ref = nat
type_synonym heap = "cert_authority list"

definition Clone :: "ref \<Rightarrow> heap \<Rightarrow> ref \<times> heap" where
  "Clone p h = (length h, h @ [h ! p])"

definition SetRevision :: "ref \<Rightarrow> nat \<Rightarrow> heap \<Rightarrow> heap" where
  "SetRevision p r h = h[p := (h ! p)\<lparr>GetRevision := r\<rparr>]"

definition SetResourceID :: "ref \<Rightarrow> nat \<Rightarrow> heap \<Rightarrow> heap" where
  "SetResourceID p r h = h[p := (h ! p)\<lparr>GetResourceID := r\<rparr>]"

definition UpdateCertAuthority ::
  "services \<Rightarrow> ref \<Rightarrow> heap \<Rightarrow> backend \<Rightarrow> (error + ref) \<times> heap \<times> backend" where
  "UpdateCertAuthority env p h s =
     (if length h \<le> p then (Inl NilPointerPanic, h, s)
      else
        (case ValidateCertAuthority env (h ! p) of
           Some err \<Rightarrow> (Inl err, h, s)
         | None \<Rightarrow>
             (case MarshalCertAuthority env (h ! p) of
                Inl err \<Rightarrow> (Inl err, h, s)
              | Inr v \<Rightarrow>
                  (case ConditionalUpdate
                          \<lparr>Key = activeKey (GetID (h ! p)), Value = v, Expires = Expiry (h ! p),
                           ID = GetResourceID (h ! p), Revision = GetRevision (h ! p)\<rparr> s of
                     (Inl err, s1) \<Rightarrow> (Inl err, h, s1)
                   | (Inr l, s1) \<Rightarrow>
                       (case Clone p h of
                          (q, h1) \<Rightarrow>
                            (Inr q,
                             SetResourceID q (LeaseID l) (SetRevision q (LeaseRevision l) h1),
                             s1))))))"

text \<open>
  The operations that read an item and then write under a condition taken from what
  they read are split at the point between the two backend calls, where other writers
  may run: the first part returns the item read, the second part takes it and writes.
  The operation itself runs the two parts back to back.
\<close>

definition CompareAndSwapCertAuthority_read ::
  "services \<Rightarrow> cert_authority \<Rightarrow> cert_authority \<Rightarrow> backend \<Rightarrow> (error + item) \<times> backend" where
  "CompareAndSwapCertAuthority_read env new expected s =
     (case ValidateCertAuthority env new of
        Some err \<Rightarrow> (Inl err, s)
      | None \<Rightarrow>
          (case Get (backendKey [authoritiesPrefix, GetType new, GetName new]) s of
             (Inl err, s1) \<Rightarrow> (Inl err, s1)
           | (Inr actualItem, s1) \<Rightarrow>
               (case UnmarshalCertAuthority env (Value actualItem) of
                  Inl err \<Rightarrow> (Inl err, s1)
                | Inr actual \<Rightarrow>
                    if \<not> CertAuthoritiesEquivalent env actual expected
                    then (Inl (CompareFailed ''cluster %v settings have been updated, try again''
                                 [GetName new]), s1)
                    else (Inr actualItem, s1))))"

definition CompareAndSwapCertAuthority_swap ::
  "services \<Rightarrow> cert_authority \<Rightarrow> item \<Rightarrow> backend \<Rightarrow> (error + unit) \<times> backend" where
  "CompareAndSwapCertAuthority_swap env new actualItem s =
     (case MarshalCertAuthority env new of
        Inl err \<Rightarrow> (Inl err, s)
      | Inr newValue \<Rightarrow>
          (case CompareAndSwap actualItem
                  \<lparr>Key = backendKey [authoritiesPrefix, GetType new, GetName new],
                   Value = newValue, Expires = Expiry new, ID = 0,
                   Revision = GetRevision new\<rparr> s of
             (Inl err, s1) \<Rightarrow>
               if IsCompareFailed err
               then (Inl (CompareFailed ''cluster %v settings have been updated, try again''
                            [GetName new]), s1)
               else (Inl err, s1)
           | (Inr l, s1) \<Rightarrow> (Inr (), s1)))"

definition CompareAndSwapCertAuthority ::
  "services \<Rightarrow> cert_authority \<Rightarrow> cert_authority \<Rightarrow> backend \<Rightarrow> (error + unit) \<times> backend" where
  "CompareAndSwapCertAuthority env new expected s =
     (case CompareAndSwapCertAuthority_read env new expected s of
        (Inl err, s1) \<Rightarrow> (Inl err, s1)
      | (Inr actualItem, s1) \<Rightarrow> CompareAndSwapCertAuthority_swap env new actualItem s1)"

fun delete_condacts ::
  "services \<Rightarrow> cert_auth_id list \<Rightarrow> conditional_action list \<Rightarrow>
   error + conditional_action list" where
  "delete_condacts env [] condacts = Inr condacts"
| "delete_condacts env (cid # cids) condacts =
     (case CheckID env cid of
        Some err \<Rightarrow> Inl err
      | None \<Rightarrow>
          delete_condacts env cids
            (condacts @ [ConditionalAction (activeKey cid) Whatever Delete,
                         ConditionalAction (inactiveKey cid) Whatever Delete]))"

definition DeleteCertAuthorities ::
  "services \<Rightarrow> cert_auth_id list \<Rightarrow> backend \<Rightarrow> (error + unit) \<times> backend" where
  "DeleteCertAuthorities env cids s =
     (case delete_condacts env cids [] of
        Inl err \<Rightarrow> (Inl err, s)
      | Inr condacts \<Rightarrow>
          (case AtomicWrite condacts s of
             (Inl err, s1) \<Rightarrow> (Inl err, s1)
           | (Inr r, s1) \<Rightarrow> (Inr (), s1)))"

definition ActivateCertAuthority_read ::
  "services \<Rightarrow> cert_auth_id \<Rightarrow> backend \<Rightarrow> (error + item) \<times> backend" where
  "ActivateCertAuthority_read env cid s =
     (case CheckID env cid of
        Some err \<Rightarrow> (Inl err, s)
      | None \<Rightarrow>
          (case Get (inactiveKey cid) s of
             (Inl err, s1) \<Rightarrow>
               if IsNotFound err
               then (Inl (Errorf
                 ''can not activate cert authority %q of type %q (not a currently inactive ca)''
                 [DomainName cid, Type cid]), s1)
               else (Inl err, s1)
           | (Inr it, s1) \<Rightarrow> (Inr it, s1)))"

definition ActivateCertAuthority_write ::
  "cert_auth_id \<Rightarrow> item \<Rightarrow> backend \<Rightarrow> (error + unit) \<times> backend" where
  "ActivateCertAuthority_write cid it s =
     (case AtomicWrite
             [ConditionalAction (inactiveKey cid) (RevisionEquals (Revision it)) Delete,
              ConditionalAction (activeKey cid) Whatever (Put it)] s of
        (Inl err, s1) \<Rightarrow>
          if err = ErrConditionFailed
          then (Inl (Errorf
            ''failed to activate cert authority %q of type %q due to concurrent modification''
            [DomainName cid, Type cid]), s1)
          else (Inl err, s1)
      | (Inr r, s1) \<Rightarrow> (Inr (), s1))"

definition ActivateCertAuthority ::
  "services \<Rightarrow> cert_auth_id \<Rightarrow> backend \<Rightarrow> (error + unit) \<times> backend" where
  "ActivateCertAuthority env cid s =
     (case ActivateCertAuthority_read env cid s of
        (Inl err, s1) \<Rightarrow> (Inl err, s1)
      | (Inr it, s1) \<Rightarrow> ActivateCertAuthority_write cid it s1)"

definition DeactivateCertAuthority_read ::
  "services \<Rightarrow> cert_auth_id \<Rightarrow> backend \<Rightarrow> (error + item) \<times> backend" where
  "DeactivateCertAuthority_read env cid s =
     (case CheckID env cid of
        Some err \<Rightarrow> (Inl err, s)
      | None \<Rightarrow>
          (case Get (activeKey cid) s of
             (Inl err, s1) \<Rightarrow>
               if IsNotFound err
               then (Inl (Errorf
                 ''can not deactivate cert authority %q of type %q (not a currently active ca)''
                 [DomainName cid, Type cid]), s1)
               else (Inl err, s1)
           | (Inr it, s1) \<Rightarrow> (Inr it, s1)))"

definition DeactivateCertAuthority_write ::
  "cert_auth_id \<Rightarrow> item \<Rightarrow> backend \<Rightarrow> (error + unit) \<times> backend" where
  "DeactivateCertAuthority_write cid it s =
     (case AtomicWrite
             [ConditionalAction (activeKey cid) (RevisionEquals (Revision it)) Delete,
              ConditionalAction (inactiveKey cid) Whatever (Put it)] s of
        (Inl err, s1) \<Rightarrow>
          if err = ErrConditionFailed
          then (Inl (Errorf
            ''failed to deactivate cert authority %q of type %q due to concurrent modification''
            [DomainName cid, Type cid]), s1)
          else (Inl err, s1)
      | (Inr r, s1) \<Rightarrow> (Inr (), s1))"

definition DeactivateCertAuthority ::
  "services \<Rightarrow> cert_auth_id \<Rightarrow> backend \<Rightarrow> (error + unit) \<times> backend" where
  "DeactivateCertAuthority env cid s =
     (case DeactivateCertAuthority_read env cid s of
        (Inl err, s1) \<Rightarrow> (Inl err, s1)
      | (Inr it, s1) \<Rightarrow> DeactivateCertAuthority_write cid it s1)"

text \<open>
  The loop of \<^verbatim>\<open>GetCertAuthorities\<close>. The result slice is allocated with one entry
  per scanned item, every entry nil (\<open>None\<close>); the loop stores the authority decoded
  from item \<open>i\<close> at index \<open>i\<close> and moves on to the next index when the item fails to
  decode or to validate (the warning it logs is not modelled).
\<close>

fun fill_cas ::
  "services \<Rightarrow> bool \<Rightarrow> nat \<Rightarrow> item list \<Rightarrow> cert_authority option list \<Rightarrow>
   cert_authority option list" where
  "fill_cas env loadSigningKeys i [] cas = cas"
| "fill_cas env loadSigningKeys i (it # rest) cas =
     (case UnmarshalItem env it of
        Inl err \<Rightarrow> fill_cas env loadSigningKeys (Suc i) rest cas
      | Inr ca \<Rightarrow>
          (case ValidateCertAuthority env ca of
             Some err \<Rightarrow> fill_cas env loadSigningKeys (Suc i) rest cas
           | None \<Rightarrow>
               fill_cas env loadSigningKeys (Suc i) rest
                 (cas[i := Some (setSigningKeys ca loadSigningKeys)])))"

definition GetCertAuthorities ::
  "services \<Rightarrow> string \<Rightarrow> bool \<Rightarrow> backend \<Rightarrow>
   (error + cert_authority option list) \<times> backend" where
  "GetCertAuthorities env caType loadSigningKeys s =
     (case CheckType env caType of
        Some err \<Rightarrow> (Inl err, s)
      | None \<Rightarrow>
          (let startKey = ExactKey [authoritiesPrefix, caType]
           in case GetRange startKey (RangeEnd startKey) NoLimit s of
                (Inl err, s1) \<Rightarrow> (Inl err, s1)
              | (Inr result, s1) \<Rightarrow>
                  (Inr (fill_cas env loadSigningKeys 0 result
                          (replicate (length result) None)), s1)))"

subsection \<open>Closed forms of the two iterations\<close>

text \<open>
  What the loop of \<^verbatim>\<open>CreateCertAuthorities\<close> computes when no authority is
  rejected: the cluster names, added in order without repetition, and one pair of
  conditional actions per authority. What the loop of \<^verbatim>\<open>GetCertAuthorities\<close>
  leaves at the index of one item. That the source iterations compute these is proved below
  (\<open>create_condacts_ok\<close>, \<open>fill_cas_entries\<close>).
\<close>

fun add_names :: "cert_authority list \<Rightarrow> string list \<Rightarrow> string list" where
  "add_names [] names = names"
| "add_names (ca # cas) names =
     add_names cas (if GetName ca \<in> set names then names else names @ [GetName ca])"

definition create_pair :: "services \<Rightarrow> cert_authority \<Rightarrow> conditional_action list" where
  "create_pair env ca =
     [ConditionalAction (activeKey (GetID ca)) NotExists
        (Put \<lparr>Key = [],
              Value = (case MarshalCertAuthority env ca of Inl err \<Rightarrow> [] | Inr v \<Rightarrow> v),
              Expires = Expiry ca, ID = 0, Revision = 0\<rparr>),
      ConditionalAction (inactiveKey (GetID ca)) Whatever Delete]"

definition entry :: "services \<Rightarrow> bool \<Rightarrow> item \<Rightarrow> cert_authority option" where
  "entry env loadSigningKeys it =
     (case UnmarshalItem env it of
        Inl err \<Rightarrow> None
      | Inr ca \<Rightarrow>
          (case ValidateCertAuthority env ca of
             Some err \<Rightarrow> None
           | None \<Rightarrow> Some (setSigningKeys ca loadSigningKeys)))"

subsection \<open>Results and prefixes\<close>

definition failed_with :: "(error \<Rightarrow> bool) \<Rightarrow> error + 'a \<Rightarrow> bool" where
  "failed_with kind r = (case r of Inl err \<Rightarrow> kind err | Inr v \<Rightarrow> False)"

definition succeeded :: "error + 'a \<Rightarrow> bool" where
  "succeeded r = (case r of Inl err \<Rightarrow> False | Inr v \<Rightarrow> True)"

definition hasPrefix :: "key \<Rightarrow> key \<Rightarrow> bool" where
  "hasPrefix k p \<longleftrightarrow> take (length p) k = p"

text \<open>
  The names of certificate-authority types are words without the key separator, other
  than the segment under which the inactive slots are nested.
\<close>

definition type_name_ok :: "string \<Rightarrow> bool" where
  "type_name_ok t \<longleftrightarrow> Separator \<notin> set t \<and> t \<noteq> deactivatedPrefix"

subsection \<open>Two racing calls\<close>

text \<open>
  A call of \<^verbatim>\<open>DeactivateCertAuthority\<close> in progress: not started, holding the item
  it read, or returned. A step of a call is one backend request. A schedule says, step
  by step, which of two racing calls moves (\<open>True\<close>: the first).
\<close>

datatype progress = NotStarted | HasRead item | Returned "error + unit"

definition deactivate_step ::
  "services \<Rightarrow> cert_auth_id \<Rightarrow> progress \<Rightarrow> backend \<Rightarrow> progress \<times> backend" where
  "deactivate_step env cid p s =
     (case p of
        NotStarted \<Rightarrow>
          (case DeactivateCertAuthority_read env cid s of
             (Inl err, s1) \<Rightarrow> (Returned (Inl err), s1)
           | (Inr it, s1) \<Rightarrow> (HasRead it, s1))
      | HasRead it \<Rightarrow>
          (case DeactivateCertAuthority_write cid it s of (r, s1) \<Rightarrow> (Returned r, s1))
      | Returned r \<Rightarrow> (Returned r, s))"

fun race ::
  "services \<Rightarrow> cert_auth_id \<Rightarrow> bool list \<Rightarrow> progress \<times> progress \<times> backend \<Rightarrow>
   progress \<times> progress \<times> backend" where
  "race env cid [] c = c"
| "race env cid (b # bs) (p, q, s) =
     (if b then (case deactivate_step env cid p s of (p1, s1) \<Rightarrow> race env cid bs (p1, q, s1))
      else (case deactivate_step env cid q s of (q1, s1) \<Rightarrow> race env cid bs (p, q1, s1)))"

fun interleavings :: "'a list \<Rightarrow> 'a list \<Rightarrow> 'a list list" where
  "interleavings [] ys = [ys]"
| "interleavings xs [] = [xs]"
| "interleavings (x # xs) (y # ys) =
     map ((#) x) (interleavings xs (y # ys)) @ map ((#) y) (interleavings (x # xs) ys)"

definition is_untyped_error :: "error + unit \<Rightarrow> bool" where
  "is_untyped_error r = (case r of Inl (Errorf f a) \<Rightarrow> True | _ \<Rightarrow> False)"

section \<open>Test fixtures\<close>

text \<open>
  A small instance of the external services, used to run the operations on concrete
  stores: an authority is serialized as \<open>{type:name:key\<close>, is valid when it has a
  name, and two authorities are equivalent when they agree on everything except the
  revision and the resource id.
\<close>

definition field :: "string \<Rightarrow> string" where
  "field v = takeWhile (\<lambda>c. c \<noteq> CHR '':'') v"

definition after_field :: "string \<Rightarrow> string" where
  "after_field v = drop 1 (dropWhile (\<lambda>c. c \<noteq> CHR '':'') v)"

definition test_marshal :: "cert_authority \<Rightarrow> error + bytes" where
  "test_marshal ca =
     Inr (''{'' @ GetType ca @ '':'' @ GetName ca @ '':'' @ concat (SigningKeys ca))"

definition test_unmarshal :: "bytes \<Rightarrow> error + cert_authority" where
  "test_unmarshal v =
     (case v of
        [] \<Rightarrow> Inl (BadParameter ''missing resource data'' [])
      | c # body \<Rightarrow>
          if c = CHR ''{''
          then Inr \<lparr>GetType = field body, GetName = field (after_field body),
                    SigningKeys = (if after_field (after_field body) = [] then []
                                   else [after_field (after_field body)]),
                    GetRoleMap = [], GetRevision = 0, GetResourceID = 0, Expiry = 0\<rparr>
          else Inl (BadParameter ''malformed resource data'' []))"

definition test_services :: services where
  "test_services =
     \<lparr>ValidateCertAuthority =
        (\<lambda>ca. if GetName ca = [] then Some (BadParameter ''missing name'' []) else None),
      MarshalCertAuthority = test_marshal,
      UnmarshalCertAuthority = test_unmarshal,
      CertAuthoritiesEquivalent =
        (\<lambda>a b. GetType a = GetType b \<and> GetName a = GetName b \<and>
                SigningKeys a = SigningKeys b \<and> GetRoleMap a = GetRoleMap b \<and>
                Expiry a = Expiry b),
      CheckID =
        (\<lambda>cid. if DomainName cid = [] then Some (BadParameter ''empty domain name'' [])
                else None),
      CheckType =
        (\<lambda>t. if t = [] then Some (BadParameter ''empty type'' []) else None)\<rparr>"

definition test_item :: "key \<Rightarrow> bytes \<Rightarrow> nat \<Rightarrow> item" where
  "test_item k v r = \<lparr>Key = k, Value = v, Expires = 0, ID = r, Revision = r\<rparr>"

definition empty_backend :: backend where
  "empty_backend = \<lparr>items = [], clock = 1, journal = []\<rparr>"

text \<open>One stored host authority \<open>a\<close>, at revision 1.\<close>

definition backend_a :: backend where
  "backend_a =
     \<lparr>items = [test_item ''/authorities/host/a'' ''{host:a:secret'' 1],
      clock = 2, journal = []\<rparr>"

text \<open>The same authority after another writer replaced it, at revision 2.\<close>

definition backend_a2 :: backend where
  "backend_a2 =
     \<lparr>items = [test_item ''/authorities/host/a'' ''{host:a:rotated'' 2],
      clock = 3, journal = []\<rparr>"

text \<open>Three valid host authorities and one item whose value does not decode.\<close>

definition backend_corrupt :: backend where
  "backend_corrupt =
     \<lparr>items = [test_item ''/authorities/host/a'' ''garbage'' 1,
               test_item ''/authorities/host/b'' ''{host:b:secret'' 2,
               test_item ''/authorities/host/c'' ''{host:c:secret'' 3,
               test_item ''/authorities/host/d'' ''{host:d:secret'' 4],
      clock = 5, journal = []\<rparr>"

text \<open>Authorities of two types, one type name a prefix of the other, in both slots.\<close>

definition backend_foo :: backend where
  "backend_foo =
     \<lparr>items = [test_item ''/authorities/deactivated/foo/x'' ''{foo:x:secret'' 1,
               test_item ''/authorities/foo/a'' ''{foo:a:secret'' 2,
               test_item ''/authorities/foo_some_suffix/b'' ''{foo_some_suffix:b:secret'' 3],
      clock = 4, journal = []\<rparr>"

text \<open>
  The identity of the host authority of cluster \<open>a\<close>, its stored item, the
  authority as read back from that item, a rotated version of it, the authority as
  decoded without backend metadata, a second host authority, and an identity of type
  \<open>foo\<close>.
\<close>

definition host_a :: cert_auth_id where
  "host_a = \<lparr>Type = ''host'', DomainName = ''a''\<rparr>"

definition item_a :: item where
  "item_a = test_item ''/authorities/host/a'' ''{host:a:secret'' 1"

definition ca_a :: cert_authority where
  "ca_a = \<lparr>GetType = ''host'', GetName = ''a'', SigningKeys = [''secret''], GetRoleMap = [],
           GetRevision = 1, GetResourceID = 1, Expiry = 0\<rparr>"

definition ca_a_new :: cert_authority where
  "ca_a_new = \<lparr>GetType = ''host'', GetName = ''a'', SigningKeys = [''rotated''], GetRoleMap = [],
               GetRevision = 0, GetResourceID = 0, Expiry = 30\<rparr>"

definition ca_a_plain :: cert_authority where
  "ca_a_plain = \<lparr>GetType = ''host'', GetName = ''a'', SigningKeys = [''secret''],
                 GetRoleMap = [], GetRevision = 0, GetResourceID = 0, Expiry = 0\<rparr>"

definition ca_b :: cert_authority where
  "ca_b = \<lparr>GetType = ''host'', GetName = ''b'', SigningKeys = [''secret''], GetRoleMap = [],
           GetRevision = 0, GetResourceID = 0, Expiry = 0\<rparr>"

definition foo_x :: cert_auth_id where
  "foo_x = \<lparr>Type = ''foo'', DomainName = ''x''\<rparr>"

section \<open>Properties of the backend and of the key scheme\<close>

lemma lookup_remove: "lookup k (remove k' xs) = (if k = k' then None else lookup k xs)"
  by (induction xs) (auto simp: lookup_def remove_def)

lemma lookup_insert_item:
  "lookup (Key it) xs = None \<Longrightarrow>
   lookup k (insert_item it xs) = (if Key it = k then Some it else lookup k xs)"
  by (induction xs) (auto simp: lookup_def split: if_splits)

lemma lookup_store:
  "lookup k (store k' it r xs) =
     (if k = k' then Some (it\<lparr>Key := k', ID := r, Revision := r\<rparr>) else lookup k xs)"
  by (simp add: store_def lookup_insert_item lookup_remove)

lemma lookup_filter_key:
  "lookup k (filter (\<lambda>it. Q (Key it)) xs) = (if Q k then lookup k xs else None)"
  by (induction xs) (auto simp: lookup_def)

lemma RangeEnd_snoc:
  "(of_char c :: nat) < 255 \<Longrightarrow> RangeEnd (q @ [c]) = q @ [char_of (of_char c + (1::nat))]"
  by (simp add: RangeEnd_def)

lemma bytes_less_Nil: "\<not> bytes_less k []"
  by (cases k) auto

lemma next_byte:
  assumes "(of_char c :: nat) < 255"
  shows "(\<not> (of_char a :: nat) < of_char c \<and>
          (of_char a :: nat) < of_char (char_of (of_char c + (1::nat)) :: char)) \<longleftrightarrow> a = c"
proof -
  have e: "(of_char (char_of (of_char c + (1::nat)) :: char) :: nat) = of_char c + 1"
    using assms by simp
  have "(\<not> (of_char a :: nat) < of_char c \<and> (of_char a :: nat) < of_char c + 1)
          \<longleftrightarrow> (of_char a :: nat) = of_char c"
    by arith
  then show ?thesis
    unfolding e by simp
qed

lemma range_is_prefix:
  assumes "(of_char c :: nat) < 255"
  shows "in_range (q @ [c]) (q @ [char_of (of_char c + (1::nat))]) k \<longleftrightarrow> hasPrefix k (q @ [c])"
proof (induction q arbitrary: k)
  case Nil
  show ?case
  proof (cases k)
    case Nil
    then show ?thesis by (simp add: in_range_def hasPrefix_def)
  next
    case (Cons a r)
    have "in_range [c] [char_of (of_char c + (1::nat))] (a # r) \<longleftrightarrow> a = c"
      using next_byte [OF assms, of a]
      by (auto simp: in_range_def bytes_less_Nil)
    then show ?thesis using Cons by (simp add: hasPrefix_def)
  qed
next
  case (Cons b q)
  show ?case
  proof (cases k)
    case Nil
    then show ?thesis by (simp add: in_range_def hasPrefix_def)
  next
    case (Cons a r)
    have "in_range ((b # q) @ [c]) ((b # q) @ [char_of (of_char c + (1::nat))]) (a # r)
            \<longleftrightarrow> a = b \<and> in_range (q @ [c]) (q @ [char_of (of_char c + (1::nat))]) r"
      by (auto simp: in_range_def)
    then show ?thesis
      using Cons Cons.IH [of r] by (auto simp: hasPrefix_def)
  qed
qed

lemma exact_range:
  "in_range (ExactKey parts) (RangeEnd (ExactKey parts)) k \<longleftrightarrow> hasPrefix k (ExactKey parts)"
proof -
  have "(of_char Separator :: nat) < 255"
    by (simp add: Separator_def)
  then show ?thesis
    unfolding ExactKey_def by (simp only: RangeEnd_snoc range_is_prefix)
qed

lemma activeKey_eq:
  "activeKey cid = ''/authorities/'' @ Type cid @ ''/'' @ DomainName cid"
  by (simp add: activeKey_def backendKey_def authoritiesPrefix_def Separator_def)

lemma inactiveKey_eq:
  "inactiveKey cid = ''/authorities/deactivated/'' @ Type cid @ ''/'' @ DomainName cid"
  by (simp add: inactiveKey_def backendKey_def authoritiesPrefix_def deactivatedPrefix_def
      Separator_def)

lemma ExactKey_type_eq:
  "ExactKey [authoritiesPrefix, t] = ''/authorities/'' @ t @ ''/''"
  by (simp add: ExactKey_def backendKey_def authoritiesPrefix_def Separator_def)

lemma slots_differ: "activeKey cid \<noteq> inactiveKey cid"
proof
  assume "activeKey cid = inactiveKey cid"
  then have "length (activeKey cid) = length (inactiveKey cid)"
    by simp
  then show False
    by (simp add: activeKey_eq inactiveKey_eq)
qed

lemma hasPrefix_append: "hasPrefix (p @ k) (p @ q) \<longleftrightarrow> hasPrefix k q"
  by (simp add: hasPrefix_def)

lemma segment_prefix:
  "c \<notin> set t \<Longrightarrow> c \<notin> set t' \<Longrightarrow> hasPrefix (t' @ c # n) (t @ [c]) \<longleftrightarrow> t' = t"
proof (induction t arbitrary: t')
  case Nil
  then show ?case by (cases t') (auto simp: hasPrefix_def)
next
  case (Cons a t)
  then show ?case by (cases t') (auto simp: hasPrefix_def)
qed

lemma segment_eq:
  "c \<notin> set t \<Longrightarrow> c \<notin> set t' \<Longrightarrow> t @ c # x = t' @ c # y \<longleftrightarrow> t = t' \<and> x = y"
proof (induction t arbitrary: t')
  case Nil
  then show ?case by (cases t') auto
next
  case (Cons a t)
  then show ?case by (cases t') auto
qed

lemma active_in_type_range:
  assumes "Separator \<notin> set t" and "Separator \<notin> set (Type cid)"
  shows "hasPrefix (activeKey cid) (ExactKey [authoritiesPrefix, t]) \<longleftrightarrow> Type cid = t"
proof -
  have "hasPrefix (''/authorities/'' @ (Type cid @ CHR ''/'' # DomainName cid))
          (''/authorities/'' @ (t @ [CHR ''/''])) \<longleftrightarrow> Type cid = t"
    unfolding hasPrefix_append using assms by (simp add: segment_prefix Separator_def)
  then show ?thesis
    by (simp add: activeKey_eq ExactKey_type_eq)
qed

lemma inactive_not_in_type_range:
  assumes "type_name_ok t"
  shows "\<not> hasPrefix (inactiveKey cid) (ExactKey [authoritiesPrefix, t])"
proof -
  have "hasPrefix (''/authorities/'' @ (''deactivated'' @ CHR ''/'' # (Type cid @ ''/'' @ DomainName cid)))
          (''/authorities/'' @ (t @ [CHR ''/''])) \<longleftrightarrow> ''deactivated'' = t"
    unfolding hasPrefix_append using assms
    by (subst segment_prefix) (auto simp: type_name_ok_def Separator_def)
  then show ?thesis
    using assms by (auto simp: inactiveKey_eq ExactKey_type_eq type_name_ok_def deactivatedPrefix_def)
qed

lemma activeKey_inj:
  assumes "Separator \<notin> set (Type a)" and "Separator \<notin> set (Type b)"
  shows "activeKey a = activeKey b \<longleftrightarrow> a = (b :: cert_auth_id)"
  using assms by (auto simp: activeKey_eq segment_eq Separator_def)

lemma active_not_inactive:
  assumes "type_name_ok (Type a)"
  shows "activeKey a \<noteq> inactiveKey b"
proof
  assume "activeKey a = inactiveKey b"
  then have "Type a @ CHR ''/'' # DomainName a
               = ''deactivated'' @ CHR ''/'' # (Type b @ ''/'' @ DomainName b)"
    by (simp add: activeKey_eq inactiveKey_eq)
  then have "Type a = ''deactivated''"
    using assms by (subst (asm) segment_eq) (auto simp: type_name_ok_def Separator_def)
  then show False
    using assms by (simp add: type_name_ok_def deactivatedPrefix_def)
qed

section \<open>Properties of the rotation\<close>

lemma move_batch:
  "AtomicWrite [ConditionalAction src (RevisionEquals r) Delete,
                ConditionalAction dst Whatever (Put it)] s =
     (if holds (RevisionEquals r) (lookup src (items s))
      then (Inr (clock s),
            s\<lparr>journal := journal s @
                  [AtomicWriteCall [ConditionalAction src (RevisionEquals r) Delete,
                                    ConditionalAction dst Whatever (Put it)]],
              items := store dst it (clock s) (remove src (items s)),
              clock := Suc (clock s)\<rparr>)
      else (Inl ErrConditionFailed,
            s\<lparr>journal := journal s @
                  [AtomicWriteCall [ConditionalAction src (RevisionEquals r) Delete,
                                    ConditionalAction dst Whatever (Put it)]]\<rparr>))"
  by (simp add: AtomicWrite_def)

lemma deactivate_read_present:
  "CheckID env cid = None \<Longrightarrow> lookup (activeKey cid) (items s) = Some it \<Longrightarrow>
   DeactivateCertAuthority_read env cid s = (Inr it, s)"
  by (simp add: DeactivateCertAuthority_read_def Get_def)

lemma deactivate_read_absent:
  "CheckID env cid = None \<Longrightarrow> lookup (activeKey cid) (items s) = None \<Longrightarrow>
   DeactivateCertAuthority_read env cid s =
     (Inl (Errorf ''can not deactivate cert authority %q of type %q (not a currently active ca)''
             [DomainName cid, Type cid]), s)"
  by (simp add: DeactivateCertAuthority_read_def Get_def)

lemma activate_read_present:
  "CheckID env cid = None \<Longrightarrow> lookup (inactiveKey cid) (items s) = Some it \<Longrightarrow>
   ActivateCertAuthority_read env cid s = (Inr it, s)"
  by (simp add: ActivateCertAuthority_read_def Get_def)

lemma deactivate_write_ok:
  assumes "holds (RevisionEquals (Revision it)) (lookup (activeKey cid) (items s))"
  shows "DeactivateCertAuthority_write cid it s =
     (Inr (),
      s\<lparr>journal := journal s @
            [AtomicWriteCall [ConditionalAction (activeKey cid) (RevisionEquals (Revision it)) Delete,
                              ConditionalAction (inactiveKey cid) Whatever (Put it)]],
        items := store (inactiveKey cid) it (clock s) (remove (activeKey cid) (items s)),
        clock := Suc (clock s)\<rparr>)"
  using assms by (simp add: DeactivateCertAuthority_write_def move_batch)

lemma deactivate_write_conflict:
  assumes "\<not> holds (RevisionEquals (Revision it)) (lookup (activeKey cid) (items s))"
  shows "DeactivateCertAuthority_write cid it s =
     (Inl (Errorf ''failed to deactivate cert authority %q of type %q due to concurrent modification''
             [DomainName cid, Type cid]),
      s\<lparr>journal := journal s @
            [AtomicWriteCall [ConditionalAction (activeKey cid) (RevisionEquals (Revision it)) Delete,
                              ConditionalAction (inactiveKey cid) Whatever (Put it)]]\<rparr>)"
  using assms by (simp add: DeactivateCertAuthority_write_def move_batch)

lemma activate_write_ok:
  assumes "holds (RevisionEquals (Revision it)) (lookup (inactiveKey cid) (items s))"
  shows "ActivateCertAuthority_write cid it s =
     (Inr (),
      s\<lparr>journal := journal s @
            [AtomicWriteCall [ConditionalAction (inactiveKey cid) (RevisionEquals (Revision it)) Delete,
                              ConditionalAction (activeKey cid) Whatever (Put it)]],
        items := store (activeKey cid) it (clock s) (remove (inactiveKey cid) (items s)),
        clock := Suc (clock s)\<rparr>)"
  using assms by (simp add: ActivateCertAuthority_write_def move_batch)

lemma activate_write_conflict:
  assumes "\<not> holds (RevisionEquals (Revision it)) (lookup (inactiveKey cid) (items s))"
  shows "ActivateCertAuthority_write cid it s =
     (Inl (Errorf ''failed to activate cert authority %q of type %q due to concurrent modification''
             [DomainName cid, Type cid]),
      s\<lparr>journal := journal s @
            [AtomicWriteCall [ConditionalAction (inactiveKey cid) (RevisionEquals (Revision it)) Delete,
                              ConditionalAction (activeKey cid) Whatever (Put it)]]\<rparr>)"
  using assms by (simp add: ActivateCertAuthority_write_def move_batch)

lemma deactivate_write_effect:
  "case DeactivateCertAuthority_write cid it s of
     (res, s') \<Rightarrow>
       journal s' = journal s @
         [AtomicWriteCall [ConditionalAction (activeKey cid) (RevisionEquals (Revision it)) Delete,
                           ConditionalAction (inactiveKey cid) Whatever (Put it)]] \<and>
       (if holds (RevisionEquals (Revision it)) (lookup (activeKey cid) (items s))
        then res = Inr () \<and> lookup (activeKey cid) (items s') = None \<and>
             (\<exists>st. lookup (inactiveKey cid) (items s') = Some st \<and>
                   Value st = Value it \<and> Expires st = Expires it)
        else \<not> succeeded res \<and> items s' = items s \<and> clock s' = clock s)"
proof (cases "holds (RevisionEquals (Revision it)) (lookup (activeKey cid) (items s))")
  case True
  then show ?thesis
    by (simp add: deactivate_write_ok lookup_store lookup_remove slots_differ)
next
  case False
  then show ?thesis
    by (simp add: deactivate_write_conflict succeeded_def)
qed

lemma activate_write_effect:
  "case ActivateCertAuthority_write cid it s of
     (res, s') \<Rightarrow>
       journal s' = journal s @
         [AtomicWriteCall [ConditionalAction (inactiveKey cid) (RevisionEquals (Revision it)) Delete,
                           ConditionalAction (activeKey cid) Whatever (Put it)]] \<and>
       (if holds (RevisionEquals (Revision it)) (lookup (inactiveKey cid) (items s))
        then res = Inr () \<and> lookup (inactiveKey cid) (items s') = None \<and>
             (\<exists>st. lookup (activeKey cid) (items s') = Some st \<and>
                   Value st = Value it \<and> Expires st = Expires it)
        else \<not> succeeded res \<and> items s' = items s \<and> clock s' = clock s)"
proof (cases "holds (RevisionEquals (Revision it)) (lookup (inactiveKey cid) (items s))")
  case True
  then show ?thesis
    using slots_differ [of cid]
    by (simp add: activate_write_ok lookup_store lookup_remove)
next
  case False
  then show ?thesis
    by (simp add: activate_write_conflict succeeded_def)
qed

lemma step_read:
  "CheckID env cid = None \<Longrightarrow> lookup (activeKey cid) (items s) = Some it \<Longrightarrow>
   deactivate_step env cid NotStarted s = (HasRead it, s)"
  by (simp add: deactivate_step_def deactivate_read_present)

lemma step_read_absent:
  "CheckID env cid = None \<Longrightarrow> lookup (activeKey cid) (items s) = None \<Longrightarrow>
   deactivate_step env cid NotStarted s =
     (Returned (Inl (Errorf
        ''can not deactivate cert authority %q of type %q (not a currently active ca)''
        [DomainName cid, Type cid])), s)"
  by (simp add: deactivate_step_def deactivate_read_absent)

lemma step_write:
  "deactivate_step env cid (HasRead it) s =
     (Returned (fst (DeactivateCertAuthority_write cid it s)),
      snd (DeactivateCertAuthority_write cid it s))"
  by (simp add: deactivate_step_def split: prod.splits)

lemma step_returned: "deactivate_step env cid (Returned r) s = (Returned r, s)"
  by (simp add: deactivate_step_def)

lemma race_outcome:
  assumes chk: "CheckID env cid = None"
    and act: "lookup (activeKey cid) (items s) = Some it"
    and sched: "sched \<in> set (interleavings [True, True] [False, False])"
  shows "case race env cid sched (NotStarted, NotStarted, s) of
           (p, q, s') \<Rightarrow>
             ((p = Returned (Inr ()) \<and> (\<exists>r. q = Returned r \<and> is_untyped_error r)) \<or>
              (q = Returned (Inr ()) \<and> (\<exists>r. p = Returned r \<and> is_untyped_error r))) \<and>
             lookup (activeKey cid) (items s') = None \<and>
             (\<exists>st. lookup (inactiveKey cid) (items s') = Some st \<and> Value st = Value it)"
proof -
  have ok: "holds (RevisionEquals (Revision it)) (lookup (activeKey cid) (items s))"
    using act by simp
  define s1 where "s1 = snd (DeactivateCertAuthority_write cid it s)"
  have w1: "DeactivateCertAuthority_write cid it s = (Inr (), s1)"
    unfolding s1_def using ok by (simp add: deactivate_write_ok)
  have gone: "lookup (activeKey cid) (items s1) = None"
    unfolding s1_def using ok
    by (simp add: deactivate_write_ok lookup_store lookup_remove slots_differ)
  have kept: "\<exists>st. lookup (inactiveKey cid) (items s1) = Some st \<and> Value st = Value it"
    unfolding s1_def using ok
    by (simp add: deactivate_write_ok lookup_store)
  define s2 where "s2 = snd (DeactivateCertAuthority_write cid it s1)"
  have w2: "DeactivateCertAuthority_write cid it s1 =
     (Inl (Errorf ''failed to deactivate cert authority %q of type %q due to concurrent modification''
             [DomainName cid, Type cid]), s2)"
    unfolding s2_def using gone by (simp add: deactivate_write_conflict)
  have same: "items s2 = items s1"
    unfolding s2_def using gone by (simp add: deactivate_write_conflict)
  have r0: "deactivate_step env cid NotStarted s = (HasRead it, s)"
    using chk act by (rule step_read)
  have r1: "deactivate_step env cid NotStarted s1 =
     (Returned (Inl (Errorf
        ''can not deactivate cert authority %q of type %q (not a currently active ca)''
        [DomainName cid, Type cid])), s1)"
    using chk gone by (rule step_read_absent)
  have x0: "deactivate_step env cid (HasRead it) s = (Returned (Inr ()), s1)"
    by (simp add: step_write w1)
  have x1: "deactivate_step env cid (HasRead it) s1 =
     (Returned (Inl (Errorf ''failed to deactivate cert authority %q of type %q due to concurrent modification''
             [DomainName cid, Type cid])), s2)"
    by (simp add: step_write w2)
  from sched consider
      "sched = [True, True, False, False]" | "sched = [True, False, True, False]"
    | "sched = [True, False, False, True]" | "sched = [False, True, True, False]"
    | "sched = [False, True, False, True]" | "sched = [False, False, True, True]"
    by auto
  then show ?thesis
    using gone kept
    by cases (simp_all add: r0 r1 x0 x1 same step_returned is_untyped_error_def)
qed

lemma deactivate_sequential:
  assumes "CheckID env cid = None" and "lookup (activeKey cid) (items s) = Some it"
  shows "DeactivateCertAuthority env cid s = DeactivateCertAuthority_write cid it s"
  using assms by (simp add: DeactivateCertAuthority_def deactivate_read_present)

lemma activate_sequential:
  assumes "CheckID env cid = None" and "lookup (inactiveKey cid) (items s) = Some it"
  shows "ActivateCertAuthority env cid s = ActivateCertAuthority_write cid it s"
  using assms by (simp add: ActivateCertAuthority_def activate_read_present)

text \<open>
  Claim C3. For an identity that passes the structural check, Deactivate (and Activate
  as its mirror) moves the record between the two slots as one atomic unit. The read
  returns the item of the source slot, whose revision \<open>r\<close> it captures. The write
  then sends exactly one atomic batch: delete the source key under the condition
  \<open>RevisionEquals r\<close>, put the item read at the destination key. The write is stated
  for any backend state \<open>w\<close>, which may differ from the state that was read. When the
  revision condition holds in \<open>w\<close> the call succeeds, the source slot is empty and the
  destination slot holds the same bytes and expiry; when it fails the call returns an
  error and the items and the clock of the backend are what they were. So after the
  call the record is in exactly one slot: never in both, never in none.
\<close>

theorem rotation_is_one_atomic_move:
  assumes chk: "CheckID env cid = None"
  shows
    "(lookup (activeKey cid) (items s) = Some it \<longrightarrow>
        DeactivateCertAuthority_read env cid s = (Inr it, s) \<and>
        DeactivateCertAuthority env cid s = DeactivateCertAuthority_write cid it s) \<and>
     (case DeactivateCertAuthority_write cid it w of
        (res, w') \<Rightarrow>
          journal w' = journal w @
            [AtomicWriteCall
               [ConditionalAction (activeKey cid) (RevisionEquals (Revision it)) Delete,
                ConditionalAction (inactiveKey cid) Whatever (Put it)]] \<and>
          (if holds (RevisionEquals (Revision it)) (lookup (activeKey cid) (items w))
           then res = Inr () \<and> lookup (activeKey cid) (items w') = None \<and>
                (\<exists>st. lookup (inactiveKey cid) (items w') = Some st \<and>
                      Value st = Value it \<and> Expires st = Expires it)
           else \<not> succeeded res \<and> items w' = items w \<and> clock w' = clock w)) \<and>
     (lookup (inactiveKey cid) (items s) = Some jt \<longrightarrow>
        ActivateCertAuthority_read env cid s = (Inr jt, s) \<and>
        ActivateCertAuthority env cid s = ActivateCertAuthority_write cid jt s) \<and>
     (case ActivateCertAuthority_write cid jt w of
        (res, w') \<Rightarrow>
          journal w' = journal w @
            [AtomicWriteCall
               [ConditionalAction (inactiveKey cid) (RevisionEquals (Revision jt)) Delete,
                ConditionalAction (activeKey cid) Whatever (Put jt)]] \<and>
          (if holds (RevisionEquals (Revision jt)) (lookup (inactiveKey cid) (items w))
           then res = Inr () \<and> lookup (inactiveKey cid) (items w') = None \<and>
                (\<exists>st. lookup (activeKey cid) (items w') = Some st \<and>
                      Value st = Value jt \<and> Expires st = Expires jt)
           else \<not> succeeded res \<and> items w' = items w \<and> clock w' = clock w))"
proof (intro conjI impI)
  assume "lookup (activeKey cid) (items s) = Some it"
  then show "DeactivateCertAuthority_read env cid s = (Inr it, s)"
    and "DeactivateCertAuthority env cid s = DeactivateCertAuthority_write cid it s"
    using chk by (simp_all add: deactivate_read_present deactivate_sequential)
next
  show "case DeactivateCertAuthority_write cid it w of
        (res, w') \<Rightarrow>
          journal w' = journal w @
            [AtomicWriteCall
               [ConditionalAction (activeKey cid) (RevisionEquals (Revision it)) Delete,
                ConditionalAction (inactiveKey cid) Whatever (Put it)]] \<and>
          (if holds (RevisionEquals (Revision it)) (lookup (activeKey cid) (items w))
           then res = Inr () \<and> lookup (activeKey cid) (items w') = None \<and>
                (\<exists>st. lookup (inactiveKey cid) (items w') = Some st \<and>
                      Value st = Value it \<and> Expires st = Expires it)
           else \<not> succeeded res \<and> items w' = items w \<and> clock w' = clock w)"
    by (rule deactivate_write_effect)
next
  assume "lookup (inactiveKey cid) (items s) = Some jt"
  then show "ActivateCertAuthority_read env cid s = (Inr jt, s)"
    and "ActivateCertAuthority env cid s = ActivateCertAuthority_write cid jt s"
    using chk by (simp_all add: activate_read_present activate_sequential)
next
  show "case ActivateCertAuthority_write cid jt w of
        (res, w') \<Rightarrow>
          journal w' = journal w @
            [AtomicWriteCall
               [ConditionalAction (inactiveKey cid) (RevisionEquals (Revision jt)) Delete,
                ConditionalAction (activeKey cid) Whatever (Put jt)]] \<and>
          (if holds (RevisionEquals (Revision jt)) (lookup (inactiveKey cid) (items w))
           then res = Inr () \<and> lookup (inactiveKey cid) (items w') = None \<and>
                (\<exists>st. lookup (activeKey cid) (items w') = Some st \<and>
                      Value st = Value jt \<and> Expires st = Expires jt)
           else \<not> succeeded res \<and> items w' = items w \<and> clock w' = clock w)"
    by (rule activate_write_effect)
qed

lemma fixture_keys:
  "activeKey host_a = ''/authorities/host/a''"
  "inactiveKey host_a = ''/authorities/deactivated/host/a''"
  by (simp_all add: activeKey_eq inactiveKey_eq host_a_def)

theorem rotation_is_one_atomic_move_witness:
  "CheckID test_services host_a = None \<and>
   lookup (activeKey host_a) (items backend_a) = Some item_a \<and>
   DeactivateCertAuthority_read test_services host_a backend_a = (Inr item_a, backend_a) \<and>
   items (snd (DeactivateCertAuthority_write host_a item_a backend_a2)) = items backend_a2 \<and>
   fst (DeactivateCertAuthority test_services host_a backend_a) = Inr () \<and>
   lookup (activeKey host_a) (items (snd (DeactivateCertAuthority test_services host_a backend_a)))
     = None"
proof -
  have chk: "CheckID test_services host_a = None"
    by (simp add: test_services_def host_a_def)
  have act: "lookup (activeKey host_a) (items backend_a) = Some item_a"
    by (simp add: fixture_keys backend_a_def item_a_def lookup_def test_item_def)
  have stale: "\<not> holds (RevisionEquals (Revision item_a))
                   (lookup (activeKey host_a) (items backend_a2))"
    by (simp add: fixture_keys backend_a2_def item_a_def lookup_def test_item_def)
  have fresh: "holds (RevisionEquals (Revision item_a))
                   (lookup (activeKey host_a) (items backend_a))"
    by (simp add: act)
  have m1: "items (snd (DeactivateCertAuthority_write host_a item_a backend_a2)) = items backend_a2"
    using rotation_is_one_atomic_move [OF chk, where s = backend_a and it = item_a
        and w = backend_a2 and jt = item_a] stale
    by (simp add: case_prod_beta)
  have m2: "DeactivateCertAuthority_read test_services host_a backend_a = (Inr item_a, backend_a) \<and>
      fst (DeactivateCertAuthority test_services host_a backend_a) = Inr () \<and>
      lookup (activeKey host_a)
        (items (snd (DeactivateCertAuthority test_services host_a backend_a))) = None"
    using rotation_is_one_atomic_move [OF chk, where s = backend_a and it = item_a
        and w = backend_a and jt = item_a] act fresh
    by (simp add: case_prod_beta)
  show ?thesis
    using chk act m1 m2 by simp
qed

text \<open>
  Claim C5, as the code has it. For an identity that passes the structural check and
  whose Active slot is absent, DeactivateCertAuthority performs no write (the backend
  is left as it was, no request is sent) and fails with the error built by
  \<^verbatim>\<open>trace.Errorf\<close> whose message says that the authority is not currently active.
  That error has no kind: it is not a NotFound error.
\<close>

theorem deactivate_absent_fails_untyped:
  assumes "CheckID env cid = None" and "lookup (activeKey cid) (items s) = None"
  shows "DeactivateCertAuthority env cid s =
           (Inl (Errorf
              ''can not deactivate cert authority %q of type %q (not a currently active ca)''
              [DomainName cid, Type cid]), s) \<and>
         \<not> failed_with IsNotFound (fst (DeactivateCertAuthority env cid s))"
  using assms
  by (simp add: DeactivateCertAuthority_def deactivate_read_absent failed_with_def)

theorem deactivate_absent_fails_untyped_witness:
  "CheckID test_services host_a = None \<and>
   lookup (activeKey host_a) (items empty_backend) = None \<and>
   DeactivateCertAuthority test_services host_a empty_backend =
     (Inl (Errorf
        ''can not deactivate cert authority %q of type %q (not a currently active ca)''
        [''a'', ''host'']), empty_backend)"
proof -
  have chk: "CheckID test_services host_a = None"
    by (simp add: test_services_def host_a_def)
  have absent: "lookup (activeKey host_a) (items empty_backend) = None"
    by (simp add: empty_backend_def lookup_def)
  show ?thesis
    using chk absent deactivate_absent_fails_untyped [OF chk absent]
    by (simp add: host_a_def)
qed

text \<open>
  The claim as stated fails: on the empty backend the call for the host authority
  \<open>a\<close>, whose Active slot is absent, does not fail with a NotFound error.
\<close>

theorem deactivate_absent_not_found_counterexample:
  "lookup (activeKey host_a) (items empty_backend) = None \<and>
   \<not> failed_with IsNotFound (fst (DeactivateCertAuthority test_services host_a empty_backend))"
  by (simp add: DeactivateCertAuthority_def DeactivateCertAuthority_read_def Get_def
      test_services_def host_a_def empty_backend_def lookup_def failed_with_def)

text \<open>
  Claim C4, as the code has it. When the atomic batch of Deactivate or Activate fails
  its revision condition, the call returns the error built by \<^verbatim>\<open>trace.Errorf\<close> that
  reports the concurrent modification, and leaves the backend items as they were. That
  error has no kind: it is not the CompareFailed kind of a revision mismatch or of a
  failed compare-and-swap. Of two racing Deactivate calls on an identity that passes
  the structural check and is active, under every interleaving of their backend
  requests, exactly one succeeds and the other returns an error without kind; the
  record ends in the Inactive slot only.
\<close>

theorem rotation_conflict_is_untyped:
  assumes chk: "CheckID env cid = None"
  shows
    "(\<not> holds (RevisionEquals (Revision it)) (lookup (activeKey cid) (items w)) \<longrightarrow>
        fst (DeactivateCertAuthority_write cid it w) =
          Inl (Errorf
            ''failed to deactivate cert authority %q of type %q due to concurrent modification''
            [DomainName cid, Type cid]) \<and>
        \<not> failed_with IsCompareFailed (fst (DeactivateCertAuthority_write cid it w)) \<and>
        items (snd (DeactivateCertAuthority_write cid it w)) = items w) \<and>
     (\<not> holds (RevisionEquals (Revision jt)) (lookup (inactiveKey cid) (items w)) \<longrightarrow>
        fst (ActivateCertAuthority_write cid jt w) =
          Inl (Errorf
            ''failed to activate cert authority %q of type %q due to concurrent modification''
            [DomainName cid, Type cid]) \<and>
        \<not> failed_with IsCompareFailed (fst (ActivateCertAuthority_write cid jt w)) \<and>
        items (snd (ActivateCertAuthority_write cid jt w)) = items w) \<and>
     (lookup (activeKey cid) (items s) = Some st \<longrightarrow>
        (\<forall>sched \<in> set (interleavings [True, True] [False, False]).
           case race env cid sched (NotStarted, NotStarted, s) of
             (p, q, s') \<Rightarrow>
               ((p = Returned (Inr ()) \<and> (\<exists>r. q = Returned r \<and> is_untyped_error r)) \<or>
                (q = Returned (Inr ()) \<and> (\<exists>r. p = Returned r \<and> is_untyped_error r))) \<and>
               lookup (activeKey cid) (items s') = None \<and>
               (\<exists>kept. lookup (inactiveKey cid) (items s') = Some kept \<and>
                       Value kept = Value st)))"
proof (intro conjI impI ballI)
  assume c: "\<not> holds (RevisionEquals (Revision it)) (lookup (activeKey cid) (items w))"
  show "fst (DeactivateCertAuthority_write cid it w) =
          Inl (Errorf
            ''failed to deactivate cert authority %q of type %q due to concurrent modification''
            [DomainName cid, Type cid])"
    and "\<not> failed_with IsCompareFailed (fst (DeactivateCertAuthority_write cid it w))"
    and "items (snd (DeactivateCertAuthority_write cid it w)) = items w"
    by (simp_all add: deactivate_write_conflict [OF c] failed_with_def)
next
  assume c: "\<not> holds (RevisionEquals (Revision jt)) (lookup (inactiveKey cid) (items w))"
  show "fst (ActivateCertAuthority_write cid jt w) =
          Inl (Errorf
            ''failed to activate cert authority %q of type %q due to concurrent modification''
            [DomainName cid, Type cid])"
    and "\<not> failed_with IsCompareFailed (fst (ActivateCertAuthority_write cid jt w))"
    and "items (snd (ActivateCertAuthority_write cid jt w)) = items w"
    by (simp_all add: activate_write_conflict [OF c] failed_with_def)
next
  fix sched
  assume "lookup (activeKey cid) (items s) = Some st"
    and "sched \<in> set (interleavings [True, True] [False, False])"
  then show "case race env cid sched (NotStarted, NotStarted, s) of
             (p, q, s') \<Rightarrow>
               ((p = Returned (Inr ()) \<and> (\<exists>r. q = Returned r \<and> is_untyped_error r)) \<or>
                (q = Returned (Inr ()) \<and> (\<exists>r. p = Returned r \<and> is_untyped_error r))) \<and>
               lookup (activeKey cid) (items s') = None \<and>
               (\<exists>kept. lookup (inactiveKey cid) (items s') = Some kept \<and>
                       Value kept = Value st)"
    by (rule race_outcome [OF chk])
qed

theorem rotation_conflict_is_untyped_witness:
  "CheckID test_services host_a = None \<and>
   \<not> holds (RevisionEquals (Revision item_a)) (lookup (activeKey host_a) (items backend_a2)) \<and>
   \<not> holds (RevisionEquals (Revision item_a)) (lookup (inactiveKey host_a) (items backend_a2)) \<and>
   lookup (activeKey host_a) (items backend_a) = Some item_a \<and>
   [True, False, True, False] \<in> set (interleavings [True, True] [False, False]) \<and>
   fst (DeactivateCertAuthority_write host_a item_a backend_a2) =
     Inl (Errorf
       ''failed to deactivate cert authority %q of type %q due to concurrent modification''
       [''a'', ''host'']) \<and>
   fst (ActivateCertAuthority_write host_a item_a backend_a2) =
     Inl (Errorf
       ''failed to activate cert authority %q of type %q due to concurrent modification''
       [''a'', ''host'']) \<and>
   lookup (activeKey host_a)
     (items (snd (snd (race test_services host_a [True, False, True, False]
                         (NotStarted, NotStarted, backend_a))))) = None"
proof -
  have chk: "CheckID test_services host_a = None"
    by (simp add: test_services_def host_a_def)
  have act: "lookup (activeKey host_a) (items backend_a) = Some item_a"
    by (simp add: fixture_keys backend_a_def item_a_def lookup_def test_item_def)
  have stale: "\<not> holds (RevisionEquals (Revision item_a))
                   (lookup (activeKey host_a) (items backend_a2))"
    by (simp add: fixture_keys backend_a2_def item_a_def lookup_def test_item_def)
  have none: "\<not> holds (RevisionEquals (Revision item_a))
                   (lookup (inactiveKey host_a) (items backend_a2))"
    by (simp add: fixture_keys backend_a2_def item_a_def lookup_def test_item_def)
  have sched: "[True, False, True, False] \<in> set (interleavings [True, True] [False, False])"
    by simp
  note t = rotation_conflict_is_untyped [OF chk, where it = item_a and jt = item_a
      and w = backend_a2 and s = backend_a and st = item_a]
  have d: "fst (DeactivateCertAuthority_write host_a item_a backend_a2) =
     Inl (Errorf
       ''failed to deactivate cert authority %q of type %q due to concurrent modification''
       [''a'', ''host''])"
    using t stale by (simp add: host_a_def)
  have a: "fst (ActivateCertAuthority_write host_a item_a backend_a2) =
     Inl (Errorf
       ''failed to activate cert authority %q of type %q due to concurrent modification''
       [''a'', ''host''])"
    using t none by (simp add: host_a_def)
  have "\<forall>sched \<in> set (interleavings [True, True] [False, False]).
           case race test_services host_a sched (NotStarted, NotStarted, backend_a) of
             (p, q, s') \<Rightarrow> lookup (activeKey host_a) (items s') = None"
    using t act by (simp add: case_prod_beta)
  then have r: "lookup (activeKey host_a)
     (items (snd (snd (race test_services host_a [True, False, True, False]
                         (NotStarted, NotStarted, backend_a))))) = None"
    using sched by (auto simp: case_prod_beta)
  show ?thesis
    using chk act stale none sched d a r by simp
qed

text \<open>
  The claim as stated fails: the item read from the backend holding the host authority
  \<open>a\<close> at revision 1 is stale once another writer has replaced the authority
  (revision 2); the batch of Deactivate then fails its revision condition, and the
  error returned is not of the CompareFailed kind.
\<close>

theorem rotation_conflict_kind_counterexample:
  "DeactivateCertAuthority_read test_services host_a backend_a = (Inr item_a, backend_a) \<and>
   \<not> holds (RevisionEquals (Revision item_a)) (lookup (activeKey host_a) (items backend_a2)) \<and>
   \<not> succeeded (fst (DeactivateCertAuthority_write host_a item_a backend_a2)) \<and>
   \<not> failed_with IsCompareFailed (fst (DeactivateCertAuthority_write host_a item_a backend_a2))"
proof -
  have chk: "CheckID test_services host_a = None"
    by (simp add: test_services_def host_a_def)
  have act: "lookup (activeKey host_a) (items backend_a) = Some item_a"
    by (simp add: fixture_keys backend_a_def item_a_def lookup_def test_item_def)
  have stale: "\<not> holds (RevisionEquals (Revision item_a))
                   (lookup (activeKey host_a) (items backend_a2))"
    by (simp add: fixture_keys backend_a2_def item_a_def lookup_def test_item_def)
  show ?thesis
    using stale
    by (simp add: deactivate_read_present [OF chk act] deactivate_write_conflict [OF stale]
        failed_with_def succeeded_def)
qed

section \<open>Reading one authority\<close>

lemma lookup_Key: "lookup k xs = Some it \<Longrightarrow> Key it = k"
  by (induction xs) (auto simp: lookup_def split: if_splits)

lemma get_present:
  assumes "CheckID env cid = None" and "lookup (activeKey cid) (items s) = Some it"
    and "UnmarshalItem env it = Inr ca" and "ValidateCertAuthority env ca = None"
  shows "GetCertAuthority env cid loadSigningKeys s = (Inr (setSigningKeys ca loadSigningKeys), s)"
  using assms by (simp add: GetCertAuthority_def Get_def)

lemma get_reads_only: "snd (GetCertAuthority env cid loadSigningKeys s) = s"
  by (simp add: GetCertAuthority_def Get_def split: option.splits sum.splits)

lemma unmarshal_item_a: "UnmarshalItem test_services item_a = Inr ca_a"
  by (simp add: UnmarshalItem_def test_services_def test_unmarshal_def item_a_def test_item_def
      field_def after_field_def ca_a_def)

text \<open>
  Claim C10. For a stored identity (the identity passes the structural check, its
  Active slot holds an item that decodes to a valid authority), GetCertAuthority without
  signing keys returns the record of the Active slot with the secret key material
  stripped, and with signing keys returns the record as decoded, key material intact.
  A read, whatever it returns, leaves the backend as it was.
\<close>

theorem get_redacts_on_read_only:
  assumes "CheckID env cid = None" and "lookup (activeKey cid) (items s) = Some it"
    and "UnmarshalItem env it = Inr ca" and "ValidateCertAuthority env ca = None"
  shows "GetCertAuthority env cid False s = (Inr (ca\<lparr>SigningKeys := []\<rparr>), s) \<and>
         GetCertAuthority env cid True s = (Inr ca, s) \<and>
         snd (GetCertAuthority env cid' loadSigningKeys s') = s'"
  using assms
  by (simp add: get_present get_reads_only setSigningKeys_def RemoveCASecrets_def)

theorem get_redacts_on_read_only_witness:
  "CheckID test_services host_a = None \<and>
   lookup (activeKey host_a) (items backend_a) = Some item_a \<and>
   UnmarshalItem test_services item_a = Inr ca_a \<and>
   ValidateCertAuthority test_services ca_a = None \<and>
   GetCertAuthority test_services host_a False backend_a =
     (Inr (ca_a\<lparr>SigningKeys := []\<rparr>), backend_a) \<and>
   GetCertAuthority test_services host_a True backend_a = (Inr ca_a, backend_a) \<and>
   SigningKeys ca_a = [''secret'']"
proof -
  have chk: "CheckID test_services host_a = None"
    by (simp add: test_services_def host_a_def)
  have act: "lookup (activeKey host_a) (items backend_a) = Some item_a"
    by (simp add: fixture_keys backend_a_def item_a_def lookup_def test_item_def)
  have val: "ValidateCertAuthority test_services ca_a = None"
    by (simp add: test_services_def ca_a_def)
  show ?thesis
    using chk act unmarshal_item_a val
      get_redacts_on_read_only [OF chk act unmarshal_item_a val]
    by (simp add: ca_a_def)
qed

section \<open>Upsert\<close>

lemma upsert_skips:
  assumes "ValidateCertAuthority env ca = None"
    and "fst (GetCertAuthority env (GetID ca) True s) = Inr existing"
    and "CertAuthoritiesEquivalent env existing ca"
  shows "UpsertCertAuthority env ca s = (Inr (), s)"
proof -
  have "GetCertAuthority env (GetID ca) True s = (Inr existing, s)"
    using assms(2) get_reads_only [of env "GetID ca" True s]
    by (cases "GetCertAuthority env (GetID ca) True s") simp
  then show ?thesis
    using assms by (simp add: UpsertCertAuthority_def)
qed

lemma upsert_writes:
  assumes "ValidateCertAuthority env ca = None"
    and "\<not> (\<exists>existing. fst (GetCertAuthority env (GetID ca) True s) = Inr existing \<and>
               CertAuthoritiesEquivalent env existing ca)"
    and "MarshalCertAuthority env ca = Inr v"
  shows "UpsertCertAuthority env ca s =
     (Inr (),
      s\<lparr>items := store (activeKey (GetID ca))
                   \<lparr>Key = activeKey (GetID ca), Value = v, Expires = Expiry ca,
                    ID = GetResourceID ca, Revision = GetRevision ca\<rparr> (clock s) (items s),
        clock := Suc (clock s),
        journal := journal s @
          [PutCall \<lparr>Key = activeKey (GetID ca), Value = v, Expires = Expiry ca,
                    ID = GetResourceID ca, Revision = GetRevision ca\<rparr>]\<rparr>)"
proof -
  obtain got where g: "GetCertAuthority env (GetID ca) True s = (got, s)"
    using get_reads_only [of env "GetID ca" True s]
    by (cases "GetCertAuthority env (GetID ca) True s") simp
  have "\<not> (case got of Inr existing \<Rightarrow> CertAuthoritiesEquivalent env existing ca
            | Inl err \<Rightarrow> False)"
    using assms(2) g by (cases got) auto
  then show ?thesis
    using assms(1,3) g by (simp add: UpsertCertAuthority_def BackendPut_def)
qed

text \<open>
  Claim C7. For a valid authority, UpsertCertAuthority is a no-op when reading the
  Active slot gives a record equivalent to it: nothing is sent to the backend and the
  backend, stored revision included, is left as it was. Such a record is there whenever
  the Active slot holds an item that decodes to a valid, equivalent authority.
  Otherwise, the serialization of the authority succeeding, it sends exactly one
  request, an unconditional Put of the Active key, after which the Active slot holds
  the new bytes with the new expiry.
\<close>

theorem upsert_skips_equivalent_else_one_put:
  assumes valid: "ValidateCertAuthority env ca = None"
  shows
    "(fst (GetCertAuthority env (GetID ca) True s) = Inr existing \<and>
      CertAuthoritiesEquivalent env existing ca \<longrightarrow>
        UpsertCertAuthority env ca s = (Inr (), s)) \<and>
     (CheckID env (GetID ca) = None \<and> lookup (activeKey (GetID ca)) (items s) = Some it \<and>
      UnmarshalItem env it = Inr stored \<and> ValidateCertAuthority env stored = None \<and>
      CertAuthoritiesEquivalent env stored ca \<longrightarrow>
        UpsertCertAuthority env ca s = (Inr (), s)) \<and>
     (\<not> (\<exists>e. fst (GetCertAuthority env (GetID ca) True s) = Inr e \<and>
              CertAuthoritiesEquivalent env e ca) \<and>
      MarshalCertAuthority env ca = Inr v \<longrightarrow>
        (case UpsertCertAuthority env ca s of
           (res, s') \<Rightarrow>
             res = Inr () \<and>
             journal s' = journal s @
               [PutCall \<lparr>Key = activeKey (GetID ca), Value = v, Expires = Expiry ca,
                         ID = GetResourceID ca, Revision = GetRevision ca\<rparr>] \<and>
             lookup (activeKey (GetID ca)) (items s') =
               Some \<lparr>Key = activeKey (GetID ca), Value = v, Expires = Expiry ca,
                     ID = clock s, Revision = clock s\<rparr> \<and>
             (\<forall>k. k \<noteq> activeKey (GetID ca) \<longrightarrow> lookup k (items s') = lookup k (items s))))"
proof (intro conjI impI)
  assume "fst (GetCertAuthority env (GetID ca) True s) = Inr existing \<and>
      CertAuthoritiesEquivalent env existing ca"
  then show "UpsertCertAuthority env ca s = (Inr (), s)"
    using valid upsert_skips by blast
next
  assume a: "CheckID env (GetID ca) = None \<and> lookup (activeKey (GetID ca)) (items s) = Some it \<and>
      UnmarshalItem env it = Inr stored \<and> ValidateCertAuthority env stored = None \<and>
      CertAuthoritiesEquivalent env stored ca"
  then have "fst (GetCertAuthority env (GetID ca) True s) = Inr stored"
    by (simp add: get_present setSigningKeys_def)
  then show "UpsertCertAuthority env ca s = (Inr (), s)"
    using valid a upsert_skips by blast
next
  assume a: "\<not> (\<exists>e. fst (GetCertAuthority env (GetID ca) True s) = Inr e \<and>
              CertAuthoritiesEquivalent env e ca) \<and>
      MarshalCertAuthority env ca = Inr v"
  show "case UpsertCertAuthority env ca s of
           (res, s') \<Rightarrow>
             res = Inr () \<and>
             journal s' = journal s @
               [PutCall \<lparr>Key = activeKey (GetID ca), Value = v, Expires = Expiry ca,
                         ID = GetResourceID ca, Revision = GetRevision ca\<rparr>] \<and>
             lookup (activeKey (GetID ca)) (items s') =
               Some \<lparr>Key = activeKey (GetID ca), Value = v, Expires = Expiry ca,
                     ID = clock s, Revision = clock s\<rparr> \<and>
             (\<forall>k. k \<noteq> activeKey (GetID ca) \<longrightarrow> lookup k (items s') = lookup k (items s))"
    using a by (simp add: upsert_writes [OF valid] lookup_store)
qed

lemma ca_a_id: "GetID ca_a = host_a" "GetID ca_a_new = host_a"
  by (simp_all add: GetID_def ca_a_def ca_a_new_def host_a_def)

lemma get_host_a: "GetCertAuthority test_services host_a True backend_a = (Inr ca_a, backend_a)"
proof -
  have chk: "CheckID test_services host_a = None"
    by (simp add: test_services_def host_a_def)
  have act: "lookup (activeKey host_a) (items backend_a) = Some item_a"
    by (simp add: fixture_keys backend_a_def item_a_def lookup_def test_item_def)
  have val: "ValidateCertAuthority test_services ca_a = None"
    by (simp add: test_services_def ca_a_def)
  show ?thesis
    by (simp add: get_present [OF chk act unmarshal_item_a val] setSigningKeys_def)
qed

theorem upsert_skips_equivalent_else_one_put_witness:
  "ValidateCertAuthority test_services ca_a = None \<and>
   ValidateCertAuthority test_services ca_a_new = None \<and>
   fst (GetCertAuthority test_services (GetID ca_a) True backend_a) = Inr ca_a \<and>
   CertAuthoritiesEquivalent test_services ca_a ca_a \<and>
   \<not> CertAuthoritiesEquivalent test_services ca_a ca_a_new \<and>
   MarshalCertAuthority test_services ca_a_new = Inr ''{host:a:rotated'' \<and>
   UpsertCertAuthority test_services ca_a backend_a = (Inr (), backend_a) \<and>
   journal (snd (UpsertCertAuthority test_services ca_a_new backend_a)) =
     [PutCall \<lparr>Key = ''/authorities/host/a'', Value = ''{host:a:rotated'', Expires = 30,
               ID = 0, Revision = 0\<rparr>] \<and>
   lookup ''/authorities/host/a'' (items (snd (UpsertCertAuthority test_services ca_a_new backend_a)))
     = Some \<lparr>Key = ''/authorities/host/a'', Value = ''{host:a:rotated'', Expires = 30,
              ID = 2, Revision = 2\<rparr>"
proof -
  have v1: "ValidateCertAuthority test_services ca_a = None"
    by (simp add: test_services_def ca_a_def)
  have v2: "ValidateCertAuthority test_services ca_a_new = None"
    by (simp add: test_services_def ca_a_new_def)
  have g: "fst (GetCertAuthority test_services (GetID ca_a) True backend_a) = Inr ca_a"
    by (simp add: ca_a_id get_host_a)
  have e1: "CertAuthoritiesEquivalent test_services ca_a ca_a"
    by (simp add: test_services_def)
  have e2: "\<not> CertAuthoritiesEquivalent test_services ca_a ca_a_new"
    by (simp add: test_services_def ca_a_def ca_a_new_def)
  have m: "MarshalCertAuthority test_services ca_a_new = Inr ''{host:a:rotated''"
    by (simp add: test_services_def test_marshal_def ca_a_new_def)
  have skip: "UpsertCertAuthority test_services ca_a backend_a = (Inr (), backend_a)"
    using upsert_skips_equivalent_else_one_put [OF v1, where s = backend_a and existing = ca_a] g e1
    by simp
  have n: "\<not> (\<exists>e. fst (GetCertAuthority test_services (GetID ca_a_new) True backend_a) = Inr e \<and>
              CertAuthoritiesEquivalent test_services e ca_a_new)"
    using e2 by (simp add: ca_a_id get_host_a)
  have put: "journal (snd (UpsertCertAuthority test_services ca_a_new backend_a)) =
     [PutCall \<lparr>Key = ''/authorities/host/a'', Value = ''{host:a:rotated'', Expires = 30,
               ID = 0, Revision = 0\<rparr>] \<and>
   lookup ''/authorities/host/a'' (items (snd (UpsertCertAuthority test_services ca_a_new backend_a)))
     = Some \<lparr>Key = ''/authorities/host/a'', Value = ''{host:a:rotated'', Expires = 30,
              ID = 2, Revision = 2\<rparr>"
    using upsert_skips_equivalent_else_one_put [OF v2, where s = backend_a
        and v = "''{host:a:rotated''"] n m
    by (simp add: case_prod_beta ca_a_id fixture_keys) (simp add: ca_a_new_def backend_a_def)
  show ?thesis
    using v1 v2 g e1 e2 m skip put by simp
qed

section \<open>Revision-fenced update\<close>

lemma conditional_update_eq:
  "ConditionalUpdate it s =
     (if holds (RevisionEquals (Revision it)) (lookup (Key it) (items s))
      then (Inr \<lparr>LeaseKey = Key it, LeaseID = clock s, LeaseRevision = clock s\<rparr>,
            s\<lparr>journal := journal s @ [ConditionalUpdateCall it],
              items := store (Key it) it (clock s) (items s), clock := Suc (clock s)\<rparr>)
      else (Inl ErrIncorrectRevision, s\<lparr>journal := journal s @ [ConditionalUpdateCall it]\<rparr>))"
  by (simp add: ConditionalUpdate_def Let_def split: option.splits)

text \<open>
  Claim C8. For a valid authority (an allocated object whose serialization succeeds)
  carrying the revision it was last read at, UpdateCertAuthority sends exactly one
  request to the backend, a revision-conditioned update of the Active key carrying that
  revision. When the stored revision equals it, the call returns a new object, a copy of
  the input that carries the revision and the resource id the backend has just given to
  the stored item. When it does not, the call returns a CompareFailed error, nothing is
  stored and no second request is made. In both cases every object allocated before
  the call, the input among them, is what it was.
\<close>

theorem update_is_revision_fenced:
  assumes alloc: "p < length h"
    and valid: "ValidateCertAuthority env (h ! p) = None"
    and marshal: "MarshalCertAuthority env (h ! p) = Inr v"
  shows
    "case UpdateCertAuthority env p h s of
       (res, h', s') \<Rightarrow>
         journal s' = journal s @
           [ConditionalUpdateCall
              \<lparr>Key = activeKey (GetID (h ! p)), Value = v, Expires = Expiry (h ! p),
               ID = GetResourceID (h ! p), Revision = GetRevision (h ! p)\<rparr>] \<and>
         (\<forall>q < length h. h' ! q = h ! q) \<and>
         (if holds (RevisionEquals (GetRevision (h ! p)))
               (lookup (activeKey (GetID (h ! p))) (items s))
          then res = Inr (length h) \<and> length h' = Suc (length h) \<and>
               h' ! length h = (h ! p)\<lparr>GetRevision := clock s, GetResourceID := clock s\<rparr> \<and>
               lookup (activeKey (GetID (h ! p))) (items s') =
                 Some \<lparr>Key = activeKey (GetID (h ! p)), Value = v, Expires = Expiry (h ! p),
                       ID = clock s, Revision = clock s\<rparr>
          else failed_with IsCompareFailed res \<and> h' = h \<and> items s' = items s \<and>
               clock s' = clock s)"
proof (cases "holds (RevisionEquals (GetRevision (h ! p)))
               (lookup (activeKey (GetID (h ! p))) (items s))")
  case True
  then show ?thesis
    using assms
    by (simp add: UpdateCertAuthority_def conditional_update_eq Clone_def SetRevision_def
        SetResourceID_def lookup_store nth_append)
next
  case False
  then show ?thesis
    using assms
    by (simp add: UpdateCertAuthority_def conditional_update_eq failed_with_def
        ErrIncorrectRevision_def)
qed

theorem update_is_revision_fenced_witness:
  "0 < length [ca_a] \<and>
   ValidateCertAuthority test_services ([ca_a] ! 0) = None \<and>
   MarshalCertAuthority test_services ([ca_a] ! 0) = Inr ''{host:a:secret'' \<and>
   fst (UpdateCertAuthority test_services 0 [ca_a] backend_a) = Inr 1 \<and>
   fst (snd (UpdateCertAuthority test_services 0 [ca_a] backend_a)) ! 0 = ca_a \<and>
   fst (snd (UpdateCertAuthority test_services 0 [ca_a] backend_a)) ! 1 =
     ca_a\<lparr>GetRevision := 2, GetResourceID := 2\<rparr> \<and>
   failed_with IsCompareFailed (fst (UpdateCertAuthority test_services 0 [ca_a] backend_a2)) \<and>
   items (snd (snd (UpdateCertAuthority test_services 0 [ca_a] backend_a2))) = items backend_a2"
proof -
  have al: "0 < length [ca_a]"
    by simp
  have v: "ValidateCertAuthority test_services ([ca_a] ! 0) = None"
    by (simp add: test_services_def ca_a_def)
  have m: "MarshalCertAuthority test_services ([ca_a] ! 0) = Inr ''{host:a:secret''"
    by (simp add: test_services_def test_marshal_def ca_a_def)
  have k: "activeKey (GetID ca_a) = ''/authorities/host/a''"
    by (simp add: ca_a_id fixture_keys)
  have fresh: "holds (RevisionEquals (GetRevision ([ca_a] ! 0)))
                 (lookup (activeKey (GetID ([ca_a] ! 0))) (items backend_a))"
    by (simp add: k) (simp add: backend_a_def lookup_def test_item_def ca_a_def)
  have stale: "\<not> holds (RevisionEquals (GetRevision ([ca_a] ! 0)))
                 (lookup (activeKey (GetID ([ca_a] ! 0))) (items backend_a2))"
    by (simp add: k) (simp add: backend_a2_def lookup_def test_item_def ca_a_def)
  have ok: "fst (UpdateCertAuthority test_services 0 [ca_a] backend_a) = Inr 1 \<and>
      fst (snd (UpdateCertAuthority test_services 0 [ca_a] backend_a)) ! 0 = ca_a \<and>
      fst (snd (UpdateCertAuthority test_services 0 [ca_a] backend_a)) ! 1 =
        ca_a\<lparr>GetRevision := 2, GetResourceID := 2\<rparr>"
    using update_is_revision_fenced [OF al v m, of backend_a] fresh
    by (simp add: case_prod_beta) (simp add: backend_a_def)
  have conflict: "failed_with IsCompareFailed
        (fst (UpdateCertAuthority test_services 0 [ca_a] backend_a2)) \<and>
      items (snd (snd (UpdateCertAuthority test_services 0 [ca_a] backend_a2))) = items backend_a2"
    using update_is_revision_fenced [OF al v m, of backend_a2] stale
    by (simp add: case_prod_beta)
  show ?thesis
    using al v m ok conflict by simp
qed

section \<open>Compare-and-swap\<close>

lemma cas_key: "backendKey [authoritiesPrefix, GetType new, GetName new] = activeKey (GetID new)"
  by (simp add: activeKey_def GetID_def)

lemma cas_read_mismatch:
  assumes "ValidateCertAuthority env new = None"
    and "lookup (activeKey (GetID new)) (items s) = Some actualItem"
    and "UnmarshalCertAuthority env (Value actualItem) = Inr actual"
    and "\<not> CertAuthoritiesEquivalent env actual expected"
  shows "CompareAndSwapCertAuthority env new expected s =
           (Inl (CompareFailed ''cluster %v settings have been updated, try again''
                   [GetName new]), s)"
  using assms
  by (simp add: CompareAndSwapCertAuthority_def CompareAndSwapCertAuthority_read_def Get_def
      cas_key)

lemma cas_read_match:
  assumes "ValidateCertAuthority env new = None"
    and "lookup (activeKey (GetID new)) (items s) = Some actualItem"
    and "UnmarshalCertAuthority env (Value actualItem) = Inr actual"
    and "CertAuthoritiesEquivalent env actual expected"
  shows "CompareAndSwapCertAuthority_read env new expected s = (Inr actualItem, s)"
    and "CompareAndSwapCertAuthority env new expected s =
           CompareAndSwapCertAuthority_swap env new actualItem s"
  using assms
  by (simp_all add: CompareAndSwapCertAuthority_def CompareAndSwapCertAuthority_read_def Get_def
      cas_key)

lemma cas_swap_effect:
  assumes "Key actualItem = activeKey (GetID new)"
    and "MarshalCertAuthority env new = Inr v"
  shows "case CompareAndSwapCertAuthority_swap env new actualItem w of
           (res, w') \<Rightarrow>
             journal w' = journal w @
               [CompareAndSwapCall actualItem
                  \<lparr>Key = activeKey (GetID new), Value = v, Expires = Expiry new, ID = 0,
                   Revision = GetRevision new\<rparr>] \<and>
             (if (case lookup (activeKey (GetID new)) (items w) of
                    None \<Rightarrow> False | Some cur \<Rightarrow> Value cur = Value actualItem)
              then res = Inr () \<and>
                   lookup (activeKey (GetID new)) (items w') =
                     Some \<lparr>Key = activeKey (GetID new), Value = v, Expires = Expiry new,
                           ID = clock w, Revision = clock w\<rparr>
              else res = Inl (CompareFailed ''cluster %v settings have been updated, try again''
                                [GetName new]) \<and>
                   items w' = items w \<and> clock w' = clock w)"
  using assms
  by (simp add: CompareAndSwapCertAuthority_swap_def CompareAndSwap_def cas_key Let_def
      lookup_store split: option.splits)

text \<open>
  Claim C6. For a call CompareAndSwapCertAuthority(new, expected) with a valid
  \<open>new\<close>, where the Active slot holds an item that decodes: when the stored value is
  not equivalent to \<open>expected\<close>, the call fails with a CompareFailed error, sends
  nothing to the backend and leaves it as it was. When it is equivalent, the call goes
  on to the swap with the item it has just read: exactly one request, a single-key
  compare-and-swap whose base is that item and whose replacement carries the
  serialized \<open>new\<close>. The swap is stated for any backend state \<open>w\<close>: when a writer
  has changed or removed the stored value since the read, it fails with the same
  CompareFailed error and stores nothing; otherwise the new value is stored.
\<close>

theorem compare_and_swap_conflicts:
  assumes valid: "ValidateCertAuthority env new = None"
    and stored: "lookup (activeKey (GetID new)) (items s) = Some actualItem"
    and decodes: "UnmarshalCertAuthority env (Value actualItem) = Inr actual"
  shows
    "(\<not> CertAuthoritiesEquivalent env actual expected \<longrightarrow>
        CompareAndSwapCertAuthority env new expected s =
          (Inl (CompareFailed ''cluster %v settings have been updated, try again''
                  [GetName new]), s)) \<and>
     (CertAuthoritiesEquivalent env actual expected \<longrightarrow>
        CompareAndSwapCertAuthority_read env new expected s = (Inr actualItem, s) \<and>
        CompareAndSwapCertAuthority env new expected s =
          CompareAndSwapCertAuthority_swap env new actualItem s) \<and>
     (MarshalCertAuthority env new = Inr v \<longrightarrow>
        (case CompareAndSwapCertAuthority_swap env new actualItem w of
           (res, w') \<Rightarrow>
             journal w' = journal w @
               [CompareAndSwapCall actualItem
                  \<lparr>Key = activeKey (GetID new), Value = v, Expires = Expiry new, ID = 0,
                   Revision = GetRevision new\<rparr>] \<and>
             (if (case lookup (activeKey (GetID new)) (items w) of
                    None \<Rightarrow> False | Some cur \<Rightarrow> Value cur = Value actualItem)
              then res = Inr () \<and>
                   lookup (activeKey (GetID new)) (items w') =
                     Some \<lparr>Key = activeKey (GetID new), Value = v, Expires = Expiry new,
                           ID = clock w, Revision = clock w\<rparr>
              else res = Inl (CompareFailed ''cluster %v settings have been updated, try again''
                                [GetName new]) \<and>
                   items w' = items w \<and> clock w' = clock w)))"
proof (intro conjI impI)
  assume "\<not> CertAuthoritiesEquivalent env actual expected"
  then show "CompareAndSwapCertAuthority env new expected s =
          (Inl (CompareFailed ''cluster %v settings have been updated, try again''
                  [GetName new]), s)"
    using valid stored decodes by (rule cas_read_mismatch [rotated 3])
next
  assume e: "CertAuthoritiesEquivalent env actual expected"
  show "CompareAndSwapCertAuthority_read env new expected s = (Inr actualItem, s)"
    using valid stored decodes e by (rule cas_read_match(1))
  show "CompareAndSwapCertAuthority env new expected s =
          CompareAndSwapCertAuthority_swap env new actualItem s"
    using valid stored decodes e by (rule cas_read_match(2))
next
  assume m: "MarshalCertAuthority env new = Inr v"
  have k: "Key actualItem = activeKey (GetID new)"
    using stored by (rule lookup_Key)
  show "case CompareAndSwapCertAuthority_swap env new actualItem w of
           (res, w') \<Rightarrow>
             journal w' = journal w @
               [CompareAndSwapCall actualItem
                  \<lparr>Key = activeKey (GetID new), Value = v, Expires = Expiry new, ID = 0,
                   Revision = GetRevision new\<rparr>] \<and>
             (if (case lookup (activeKey (GetID new)) (items w) of
                    None \<Rightarrow> False | Some cur \<Rightarrow> Value cur = Value actualItem)
              then res = Inr () \<and>
                   lookup (activeKey (GetID new)) (items w') =
                     Some \<lparr>Key = activeKey (GetID new), Value = v, Expires = Expiry new,
                           ID = clock w, Revision = clock w\<rparr>
              else res = Inl (CompareFailed ''cluster %v settings have been updated, try again''
                                [GetName new]) \<and>
                   items w' = items w \<and> clock w' = clock w)"
    using k m by (rule cas_swap_effect)
qed

theorem compare_and_swap_conflicts_witness:
  "ValidateCertAuthority test_services ca_a_new = None \<and>
   lookup (activeKey (GetID ca_a_new)) (items backend_a) = Some item_a \<and>
   UnmarshalCertAuthority test_services (Value item_a) = Inr ca_a_plain \<and>
   \<not> CertAuthoritiesEquivalent test_services ca_a_plain ca_a_new \<and>
   CertAuthoritiesEquivalent test_services ca_a_plain ca_a \<and>
   MarshalCertAuthority test_services ca_a_new = Inr ''{host:a:rotated'' \<and>
   CompareAndSwapCertAuthority test_services ca_a_new ca_a_new backend_a =
     (Inl (CompareFailed ''cluster %v settings have been updated, try again'' [''a'']),
      backend_a) \<and>
   fst (CompareAndSwapCertAuthority test_services ca_a_new ca_a backend_a) = Inr () \<and>
   fst (CompareAndSwapCertAuthority_swap test_services ca_a_new item_a backend_a2) =
     Inl (CompareFailed ''cluster %v settings have been updated, try again'' [''a'']) \<and>
   items (snd (CompareAndSwapCertAuthority_swap test_services ca_a_new item_a backend_a2)) =
     items backend_a2"
proof -
  have v: "ValidateCertAuthority test_services ca_a_new = None"
    by (simp add: test_services_def ca_a_new_def)
  have st: "lookup (activeKey (GetID ca_a_new)) (items backend_a) = Some item_a"
    by (simp add: ca_a_id fixture_keys backend_a_def item_a_def lookup_def test_item_def)
  have d: "UnmarshalCertAuthority test_services (Value item_a) = Inr ca_a_plain"
    by (simp add: test_services_def test_unmarshal_def item_a_def test_item_def field_def
        after_field_def ca_a_plain_def)
  have ne: "\<not> CertAuthoritiesEquivalent test_services ca_a_plain ca_a_new"
    by (simp add: test_services_def ca_a_plain_def ca_a_new_def)
  have eq: "CertAuthoritiesEquivalent test_services ca_a_plain ca_a"
    by (simp add: test_services_def ca_a_plain_def ca_a_def)
  have m: "MarshalCertAuthority test_services ca_a_new = Inr ''{host:a:rotated''"
    by (simp add: test_services_def test_marshal_def ca_a_new_def)
  have same: "(case lookup (activeKey (GetID ca_a_new)) (items backend_a) of
                 None \<Rightarrow> False | Some cur \<Rightarrow> Value cur = Value item_a)"
    by (simp add: st)
  have changed: "\<not> (case lookup (activeKey (GetID ca_a_new)) (items backend_a2) of
                 None \<Rightarrow> False | Some cur \<Rightarrow> Value cur = Value item_a)"
    by (simp add: ca_a_id fixture_keys backend_a2_def item_a_def lookup_def test_item_def)
  have name: "GetName ca_a_new = ''a''"
    by (simp add: ca_a_new_def)
  have r1: "CompareAndSwapCertAuthority test_services ca_a_new ca_a_new backend_a =
     (Inl (CompareFailed ''cluster %v settings have been updated, try again'' [''a'']),
      backend_a)"
    using compare_and_swap_conflicts [OF v st d, where expected = ca_a_new] ne
    by (simp add: name)
  have r2: "fst (CompareAndSwapCertAuthority test_services ca_a_new ca_a backend_a) = Inr ()"
    using compare_and_swap_conflicts [OF v st d, where expected = ca_a
        and v = "''{host:a:rotated''" and w = backend_a] eq m same
    by (simp add: case_prod_beta)
  have r3: "fst (CompareAndSwapCertAuthority_swap test_services ca_a_new item_a backend_a2) =
       Inl (CompareFailed ''cluster %v settings have been updated, try again'' [''a'']) \<and>
     items (snd (CompareAndSwapCertAuthority_swap test_services ca_a_new item_a backend_a2)) =
       items backend_a2"
    using compare_and_swap_conflicts [OF v st d, where expected = ca_a
        and v = "''{host:a:rotated''" and w = backend_a2] m changed
    by (simp add: case_prod_beta name)
  show ?thesis
    using v st d ne eq m r1 r2 r3 by simp
qed

section \<open>Batch creation\<close>

lemma set_add_names: "set (add_names cas names) = set names \<union> GetName ` set cas"
  by (induction cas arbitrary: names) auto

lemma create_condacts_ok:
  assumes "\<forall>ca \<in> set cas. ValidateCertAuthority env ca = None \<and>
                           (\<exists>v. MarshalCertAuthority env ca = Inr v)"
  shows "create_condacts env cas acc names =
           Inr (acc @ concat (map (create_pair env) cas), add_names cas names)"
  using assms
proof (induction cas arbitrary: acc names)
  case Nil
  then show ?case by simp
next
  case (Cons ca cas)
  then obtain v where v: "MarshalCertAuthority env ca = Inr v"
    by auto
  have valid: "ValidateCertAuthority env ca = None"
    using Cons.prems by simp
  have rest: "\<forall>c \<in> set cas. ValidateCertAuthority env c = None \<and>
                           (\<exists>v. MarshalCertAuthority env c = Inr v)"
    using Cons.prems by simp
  show ?case
    using v valid Cons.IH [OF rest]
    by (simp add: create_pair_def Let_def)
qed

lemma create_conditions:
  "list_all (condition_holds xs) (concat (map (create_pair env) cas)) \<longleftrightarrow>
     (\<forall>ca \<in> set cas. lookup (activeKey (GetID ca)) xs = None)"
  by (induction cas) (auto simp: create_pair_def)

lemma foldl_create_pair:
  "foldl (apply_action r) xs (create_pair env c) =
     remove (inactiveKey (GetID c))
       (store (activeKey (GetID c))
          \<lparr>Key = [],
           Value = (case MarshalCertAuthority env c of Inl err \<Rightarrow> [] | Inr v \<Rightarrow> v),
           Expires = Expiry c, ID = 0, Revision = 0\<rparr> r xs)"
  by (simp add: create_pair_def)

lemma create_untouched:
  assumes "\<forall>ca \<in> set cas. k \<noteq> activeKey (GetID ca) \<and> k \<noteq> inactiveKey (GetID ca)"
  shows "lookup k (foldl (apply_action r) xs (concat (map (create_pair env) cas))) = lookup k xs"
  using assms
proof (induction cas arbitrary: xs)
  case Nil
  then show ?case by simp
next
  case (Cons ca cas)
  then show ?case
    by (simp add: foldl_create_pair lookup_store lookup_remove)
qed

lemma inactiveKey_inj:
  assumes "Separator \<notin> set (Type a)" and "Separator \<notin> set (Type b)"
  shows "inactiveKey a = inactiveKey b \<longleftrightarrow> a = (b :: cert_auth_id)"
  using assms by (auto simp: inactiveKey_eq segment_eq Separator_def)

lemma create_stored:
  assumes names: "\<forall>ca \<in> set cas. type_name_ok (GetType ca)"
    and dist: "distinct (map GetID cas)"
    and mem: "ca \<in> set cas"
  shows "lookup (activeKey (GetID ca))
           (foldl (apply_action r) xs (concat (map (create_pair env) cas))) =
         Some \<lparr>Key = activeKey (GetID ca),
               Value = (case MarshalCertAuthority env ca of Inl err \<Rightarrow> [] | Inr v \<Rightarrow> v),
               Expires = Expiry ca, ID = r, Revision = r\<rparr> \<and>
         lookup (inactiveKey (GetID ca))
           (foldl (apply_action r) xs (concat (map (create_pair env) cas))) = None"
  using assms
proof (induction cas arbitrary: xs)
  case Nil
  then show ?case by simp
next
  case (Cons c cas)
  have tc: "type_name_ok (Type (GetID c))"
    using Cons.prems(1) by (simp add: GetID_def)
  show ?case
  proof (cases "ca \<in> set cas")
    case True
    then show ?thesis
      using Cons.IH [of "remove (inactiveKey (GetID c))
          (store (activeKey (GetID c))
             \<lparr>Key = [], Value = (case MarshalCertAuthority env c of Inl err \<Rightarrow> [] | Inr v \<Rightarrow> v),
              Expires = Expiry c, ID = 0, Revision = 0\<rparr> r xs)"] Cons.prems
      by (simp add: foldl_create_pair)
  next
    case False
    then have eq: "ca = c"
      using Cons.prems(3) by simp
    have other: "\<forall>d \<in> set cas. activeKey (GetID c) \<noteq> activeKey (GetID d) \<and>
                               activeKey (GetID c) \<noteq> inactiveKey (GetID d)"
    proof
      fix d
      assume d: "d \<in> set cas"
      have td: "type_name_ok (Type (GetID d))"
        using Cons.prems(1) d by (simp add: GetID_def)
      have "GetID c \<noteq> GetID d"
        using Cons.prems(2) d by auto
      then have "activeKey (GetID c) \<noteq> activeKey (GetID d)"
        using tc td by (simp add: activeKey_inj type_name_ok_def)
      then show "activeKey (GetID c) \<noteq> activeKey (GetID d) \<and>
                 activeKey (GetID c) \<noteq> inactiveKey (GetID d)"
        using active_not_inactive [OF tc] by simp
    qed
    have other2: "\<forall>d \<in> set cas. inactiveKey (GetID c) \<noteq> activeKey (GetID d) \<and>
                               inactiveKey (GetID c) \<noteq> inactiveKey (GetID d)"
    proof
      fix d
      assume d: "d \<in> set cas"
      have td: "type_name_ok (Type (GetID d))"
        using Cons.prems(1) d by (simp add: GetID_def)
      have "GetID c \<noteq> GetID d"
        using Cons.prems(2) d by auto
      then have "inactiveKey (GetID c) \<noteq> inactiveKey (GetID d)"
        using tc td by (simp add: inactiveKey_inj type_name_ok_def)
      then show "inactiveKey (GetID c) \<noteq> activeKey (GetID d) \<and>
                 inactiveKey (GetID c) \<noteq> inactiveKey (GetID d)"
        using active_not_inactive [OF td, of "GetID c"] by auto
    qed
    show ?thesis
      unfolding eq
      using slots_differ [of "GetID c"]
      by (simp add: foldl_create_pair create_untouched [OF other] create_untouched [OF other2]
          lookup_store lookup_remove)
  qed
qed

lemma create_collision:
  assumes ok: "\<forall>ca \<in> set cas. ValidateCertAuthority env ca = None \<and>
                           (\<exists>v. MarshalCertAuthority env ca = Inr v)"
    and taken: "\<exists>ca \<in> set cas. lookup (activeKey (GetID ca)) (items s) \<noteq> None"
  shows "CreateCertAuthorities env cas s =
           (Inl (AlreadyExists ''one or more CAs from cluster(s) %q already exist''
                   [Join (add_names cas []) '','']),
            s\<lparr>journal := journal s @ [AtomicWriteCall (concat (map (create_pair env) cas))]\<rparr>)"
proof -
  have "\<not> list_all (condition_holds (items s)) (concat (map (create_pair env) cas))"
    using taken by (simp add: create_conditions)
  then show ?thesis
    by (simp add: CreateCertAuthorities_def create_condacts_ok [OF ok] AtomicWrite_def)
qed

lemma create_free:
  assumes ok: "\<forall>ca \<in> set cas. ValidateCertAuthority env ca = None \<and>
                           (\<exists>v. MarshalCertAuthority env ca = Inr v)"
    and free: "\<forall>ca \<in> set cas. lookup (activeKey (GetID ca)) (items s) = None"
  shows "CreateCertAuthorities env cas s =
           (Inr (),
            s\<lparr>journal := journal s @ [AtomicWriteCall (concat (map (create_pair env) cas))],
              items := foldl (apply_action (clock s)) (items s)
                         (concat (map (create_pair env) cas)),
              clock := Suc (clock s)\<rparr>)"
proof -
  have "list_all (condition_holds (items s)) (concat (map (create_pair env) cas))"
    using free by (simp add: create_conditions)
  then show ?thesis
    by (simp add: CreateCertAuthorities_def create_condacts_ok [OF ok] AtomicWrite_def)
qed

lemma get_absent:
  assumes "CheckID env cid = None" and "lookup (activeKey cid) (items s) = None"
  shows "failed_with IsNotFound (fst (GetCertAuthority env cid loadSigningKeys s))"
  using assms by (simp add: GetCertAuthority_def Get_def failed_with_def)

lemma length_create_pairs: "length (concat (map (create_pair env) cas)) = 2 * length cas"
  by (induction cas) (simp_all add: create_pair_def)

text \<open>
  Claim C2. For a batch of authorities that all pass validation and serialization:
  when the Active key of at least one of them already exists, CreateCertAuthorities
  fails with an AlreadyExists error whose message carries the cluster name of every
  member of the batch, and nothing is stored, so that a member whose Active slot was
  absent is still not found afterwards; when none exists, the call succeeds after
  sending exactly one atomic batch of two actions per member, and, the members having
  distinct identities with well-formed type names, every member is then stored in its
  Active slot with its serialized bytes and its expiry, its Inactive slot empty.
\<close>

theorem create_is_all_or_nothing:
  assumes ok: "\<forall>ca \<in> set cas. ValidateCertAuthority env ca = None \<and>
                           (\<exists>v. MarshalCertAuthority env ca = Inr v)"
  shows
    "((\<exists>ca \<in> set cas. lookup (activeKey (GetID ca)) (items s) \<noteq> None) \<longrightarrow>
        (case CreateCertAuthorities env cas s of
           (res, s') \<Rightarrow>
             (\<exists>names. res = Inl (AlreadyExists
                                   ''one or more CAs from cluster(s) %q already exist''
                                   [Join names '','']) \<and>
                      set names = GetName ` set cas) \<and>
             items s' = items s \<and> clock s' = clock s \<and>
             (\<forall>ca \<in> set cas.
                CheckID env (GetID ca) = None \<and>
                lookup (activeKey (GetID ca)) (items s) = None \<longrightarrow>
                failed_with IsNotFound (fst (GetCertAuthority env (GetID ca) loadSigningKeys s'))))) \<and>
     ((\<forall>ca \<in> set cas. lookup (activeKey (GetID ca)) (items s) = None) \<longrightarrow>
        (case CreateCertAuthorities env cas s of
           (res, s') \<Rightarrow>
             res = Inr () \<and>
             (\<exists>condacts. journal s' = journal s @ [AtomicWriteCall condacts] \<and>
                         length condacts = 2 * length cas) \<and>
             ((\<forall>ca \<in> set cas. type_name_ok (GetType ca)) \<and> distinct (map GetID cas) \<longrightarrow>
                (\<forall>ca \<in> set cas.
                   \<exists>st. lookup (activeKey (GetID ca)) (items s') = Some st \<and>
                        MarshalCertAuthority env ca = Inr (Value st) \<and>
                        Expires st = Expiry ca \<and>
                        lookup (inactiveKey (GetID ca)) (items s') = None))))"
proof (intro conjI impI)
  assume taken: "\<exists>ca \<in> set cas. lookup (activeKey (GetID ca)) (items s) \<noteq> None"
  have names: "set (add_names cas []) = GetName ` set cas"
    by (simp add: set_add_names)
  show "case CreateCertAuthorities env cas s of
           (res, s') \<Rightarrow>
             (\<exists>names. res = Inl (AlreadyExists
                                   ''one or more CAs from cluster(s) %q already exist''
                                   [Join names '','']) \<and>
                      set names = GetName ` set cas) \<and>
             items s' = items s \<and> clock s' = clock s \<and>
             (\<forall>ca \<in> set cas.
                CheckID env (GetID ca) = None \<and>
                lookup (activeKey (GetID ca)) (items s) = None \<longrightarrow>
                failed_with IsNotFound (fst (GetCertAuthority env (GetID ca) loadSigningKeys s')))"
    using names by (auto simp: create_collision [OF ok taken] get_absent)
next
  assume free: "\<forall>ca \<in> set cas. lookup (activeKey (GetID ca)) (items s) = None"
  have stored: "\<forall>ca \<in> set cas.
      \<exists>st. lookup (activeKey (GetID ca))
             (foldl (apply_action (clock s)) (items s) (concat (map (create_pair env) cas)))
             = Some st \<and>
           MarshalCertAuthority env ca = Inr (Value st) \<and> Expires st = Expiry ca \<and>
           lookup (inactiveKey (GetID ca))
             (foldl (apply_action (clock s)) (items s) (concat (map (create_pair env) cas)))
             = None"
    if wf: "\<forall>ca \<in> set cas. type_name_ok (GetType ca)" "distinct (map GetID cas)"
  proof
    fix ca
    assume mem: "ca \<in> set cas"
    obtain v where v: "MarshalCertAuthority env ca = Inr v"
      using ok mem by auto
    show "\<exists>st. lookup (activeKey (GetID ca))
             (foldl (apply_action (clock s)) (items s) (concat (map (create_pair env) cas)))
             = Some st \<and>
           MarshalCertAuthority env ca = Inr (Value st) \<and> Expires st = Expiry ca \<and>
           lookup (inactiveKey (GetID ca))
             (foldl (apply_action (clock s)) (items s) (concat (map (create_pair env) cas)))
             = None"
      using create_stored [OF wf mem, of "clock s" "items s" env] v by simp
  qed
  show "case CreateCertAuthorities env cas s of
           (res, s') \<Rightarrow>
             res = Inr () \<and>
             (\<exists>condacts. journal s' = journal s @ [AtomicWriteCall condacts] \<and>
                         length condacts = 2 * length cas) \<and>
             ((\<forall>ca \<in> set cas. type_name_ok (GetType ca)) \<and> distinct (map GetID cas) \<longrightarrow>
                (\<forall>ca \<in> set cas.
                   \<exists>st. lookup (activeKey (GetID ca)) (items s') = Some st \<and>
                        MarshalCertAuthority env ca = Inr (Value st) \<and>
                        Expires st = Expiry ca \<and>
                        lookup (inactiveKey (GetID ca)) (items s') = None))"
    using stored by (simp add: create_free [OF ok free] length_create_pairs)
qed

theorem create_is_all_or_nothing_witness:
  "ValidateCertAuthority test_services ca_a_plain = None \<and>
   MarshalCertAuthority test_services ca_a_plain = Inr ''{host:a:secret'' \<and>
   ValidateCertAuthority test_services ca_b = None \<and>
   MarshalCertAuthority test_services ca_b = Inr ''{host:b:secret'' \<and>
   lookup (activeKey (GetID ca_a_plain)) (items backend_a) = Some item_a \<and>
   lookup (activeKey (GetID ca_b)) (items backend_a) = None \<and>
   CheckID test_services (GetID ca_b) = None \<and>
   failed_with IsAlreadyExists (fst (CreateCertAuthorities test_services [ca_a_plain, ca_b] backend_a)) \<and>
   items (snd (CreateCertAuthorities test_services [ca_a_plain, ca_b] backend_a)) = items backend_a \<and>
   failed_with IsNotFound
     (fst (GetCertAuthority test_services (GetID ca_b) True
        (snd (CreateCertAuthorities test_services [ca_a_plain, ca_b] backend_a)))) \<and>
   type_name_ok (GetType ca_a_plain) \<and> type_name_ok (GetType ca_b) \<and>
   distinct (map GetID [ca_a_plain, ca_b]) \<and>
   fst (CreateCertAuthorities test_services [ca_a_plain, ca_b] empty_backend) = Inr () \<and>
   map_option Value
     (lookup (activeKey (GetID ca_b))
        (items (snd (CreateCertAuthorities test_services [ca_a_plain, ca_b] empty_backend))))
     = Some ''{host:b:secret''"
proof -
  have va: "ValidateCertAuthority test_services ca_a_plain = None"
    by (simp add: test_services_def ca_a_plain_def)
  have ma: "MarshalCertAuthority test_services ca_a_plain = Inr ''{host:a:secret''"
    by (simp add: test_services_def test_marshal_def ca_a_plain_def)
  have vb: "ValidateCertAuthority test_services ca_b = None"
    by (simp add: test_services_def ca_b_def)
  have mb: "MarshalCertAuthority test_services ca_b = Inr ''{host:b:secret''"
    by (simp add: test_services_def test_marshal_def ca_b_def)
  have ka: "activeKey (GetID ca_a_plain) = ''/authorities/host/a''"
    by (simp add: activeKey_eq GetID_def ca_a_plain_def)
  have kb: "activeKey (GetID ca_b) = ''/authorities/host/b''"
    by (simp add: activeKey_eq GetID_def ca_b_def)
  have la: "lookup (activeKey (GetID ca_a_plain)) (items backend_a) = Some item_a"
    by (simp add: ka backend_a_def item_a_def lookup_def test_item_def)
  have lb: "lookup (activeKey (GetID ca_b)) (items backend_a) = None"
    by (simp add: kb backend_a_def lookup_def test_item_def)
  have cb: "CheckID test_services (GetID ca_b) = None"
    by (simp add: test_services_def GetID_def ca_b_def)
  have ta: "type_name_ok (GetType ca_a_plain)"
    by (simp add: type_name_ok_def ca_a_plain_def Separator_def deactivatedPrefix_def)
  have tb: "type_name_ok (GetType ca_b)"
    by (simp add: type_name_ok_def ca_b_def Separator_def deactivatedPrefix_def)
  have di: "distinct (map GetID [ca_a_plain, ca_b])"
    by (simp add: GetID_def ca_a_plain_def ca_b_def)
  have ok: "\<forall>ca \<in> set [ca_a_plain, ca_b].
              ValidateCertAuthority test_services ca = None \<and>
              (\<exists>v. MarshalCertAuthority test_services ca = Inr v)"
    using va ma vb mb by simp
  have collide: "failed_with IsAlreadyExists
        (fst (CreateCertAuthorities test_services [ca_a_plain, ca_b] backend_a)) \<and>
      items (snd (CreateCertAuthorities test_services [ca_a_plain, ca_b] backend_a))
        = items backend_a \<and>
      failed_with IsNotFound
        (fst (GetCertAuthority test_services (GetID ca_b) True
           (snd (CreateCertAuthorities test_services [ca_a_plain, ca_b] backend_a))))"
    using create_is_all_or_nothing [OF ok, of backend_a True] la lb cb
    by (auto simp: case_prod_beta failed_with_def)
  have free: "\<forall>ca \<in> set [ca_a_plain, ca_b].
                lookup (activeKey (GetID ca)) (items empty_backend) = None"
    by (simp add: empty_backend_def lookup_def)
  have created: "fst (CreateCertAuthorities test_services [ca_a_plain, ca_b] empty_backend) = Inr () \<and>
      map_option Value
        (lookup (activeKey (GetID ca_b))
           (items (snd (CreateCertAuthorities test_services [ca_a_plain, ca_b] empty_backend))))
        = Some ''{host:b:secret''"
    using create_is_all_or_nothing [OF ok, of empty_backend True] free ta tb di mb
    by (auto simp: case_prod_beta)
  show ?thesis
    using va ma vb mb la lb cb ta tb di collide created by simp
qed

section \<open>Listing and deleting the authorities of a type\<close>

lemma fill_cas_entries:
  "length pre = i \<Longrightarrow>
   fill_cas env l i result (pre @ replicate (length result) None) = pre @ map (entry env l) result"
proof (induction result arbitrary: pre i)
  case Nil
  then show ?case by simp
next
  case (Cons it rest)
  have step: "fill_cas env l (Suc i) rest ((pre @ [x]) @ replicate (length rest) None) =
                (pre @ [x]) @ map (entry env l) rest" for x
    using Cons.IH [of "pre @ [x]" "Suc i"] Cons.prems by simp
  show ?case
  proof (cases "entry env l it")
    case None
    then show ?thesis
      using step [of None] Cons.prems
      by (auto simp: entry_def replicate_app_Cons_same split: sum.splits option.splits)
  next
    case (Some ca)
    then show ?thesis
      using step [of "Some ca"] Cons.prems
      by (auto simp: entry_def list_update_append split: sum.splits option.splits)
  qed
qed

lemma get_all_entries:
  "GetCertAuthorities env caType l s =
     (case CheckType env caType of
        Some err \<Rightarrow> (Inl err, s)
      | None \<Rightarrow>
          (Inr (map (entry env l)
                  (filter (\<lambda>it. hasPrefix (Key it) (ExactKey [authoritiesPrefix, caType]))
                     (items s))), s))"
  using fill_cas_entries [of "[]" 0]
  by (simp add: GetCertAuthorities_def GetRange_def exact_range Let_def NoLimit_def
      split: option.splits)

lemma delete_all_eq:
  "DeleteAllCertAuthorities caType s =
     (Inr (),
      s\<lparr>items := filter (\<lambda>it. \<not> hasPrefix (Key it) (ExactKey [authoritiesPrefix, caType]))
                   (items s),
        journal := journal s @
          [DeleteRangeCall (ExactKey [authoritiesPrefix, caType])
             (RangeEnd (ExactKey [authoritiesPrefix, caType]))]\<rparr>)"
  by (simp add: DeleteAllCertAuthorities_def DeleteRange_def exact_range Let_def)

text \<open>
  Claim C9. Let \<open>t\<close> and \<open>t'\<close> be distinct names of authority types, of which
  one may be a textual prefix of the other. The keys scanned by GetCertAuthorities for
  \<open>t\<close> and deleted by DeleteAllCertAuthorities for \<open>t\<close> are those that have the
  exact key of \<open>t\<close> as a prefix: every Active key of type \<open>t\<close>, no Active key of
  type \<open>t'\<close>, and no Inactive key. So the listing of \<open>t\<close> decodes only items stored
  under an Active key of \<open>t\<close>, and the deletion empties every Active slot of \<open>t\<close>
  and leaves every Active slot of \<open>t'\<close> and every Inactive slot as it was.
\<close>

theorem type_ranges_do_not_leak:
  assumes t: "type_name_ok t" and t': "type_name_ok t'" and ne: "t \<noteq> t'"
  shows
    "hasPrefix (activeKey \<lparr>Type = t, DomainName = n\<rparr>) (ExactKey [authoritiesPrefix, t]) \<and>
     \<not> hasPrefix (activeKey \<lparr>Type = t', DomainName = n\<rparr>) (ExactKey [authoritiesPrefix, t]) \<and>
     \<not> hasPrefix (inactiveKey cid) (ExactKey [authoritiesPrefix, t]) \<and>
     (CheckType env t = None \<longrightarrow>
        GetCertAuthorities env t l s =
          (Inr (map (entry env l)
                  (filter (\<lambda>it. hasPrefix (Key it) (ExactKey [authoritiesPrefix, t]))
                     (items s))), s)) \<and>
     (case DeleteAllCertAuthorities t s of
        (res, s') \<Rightarrow>
          res = Inr () \<and>
          lookup (activeKey \<lparr>Type = t, DomainName = n\<rparr>) (items s') = None \<and>
          lookup (activeKey \<lparr>Type = t', DomainName = n\<rparr>) (items s') =
            lookup (activeKey \<lparr>Type = t', DomainName = n\<rparr>) (items s) \<and>
          lookup (inactiveKey cid) (items s') = lookup (inactiveKey cid) (items s))"
proof -
  have own: "hasPrefix (activeKey \<lparr>Type = t, DomainName = n\<rparr>) (ExactKey [authoritiesPrefix, t])"
    using t by (simp add: active_in_type_range type_name_ok_def)
  have other: "\<not> hasPrefix (activeKey \<lparr>Type = t', DomainName = n\<rparr>)
                   (ExactKey [authoritiesPrefix, t])"
    using t t' ne by (simp add: active_in_type_range type_name_ok_def)
  have inactive: "\<not> hasPrefix (inactiveKey cid) (ExactKey [authoritiesPrefix, t])"
    using t by (rule inactive_not_in_type_range)
  have listing: "CheckType env t = None \<longrightarrow>
        GetCertAuthorities env t l s =
          (Inr (map (entry env l)
                  (filter (\<lambda>it. hasPrefix (Key it) (ExactKey [authoritiesPrefix, t]))
                     (items s))), s)"
    by (simp add: get_all_entries)
  have deletion: "case DeleteAllCertAuthorities t s of
        (res, s') \<Rightarrow>
          res = Inr () \<and>
          lookup (activeKey \<lparr>Type = t, DomainName = n\<rparr>) (items s') = None \<and>
          lookup (activeKey \<lparr>Type = t', DomainName = n\<rparr>) (items s') =
            lookup (activeKey \<lparr>Type = t', DomainName = n\<rparr>) (items s) \<and>
          lookup (inactiveKey cid) (items s') = lookup (inactiveKey cid) (items s)"
    using own other inactive
    by (simp add: delete_all_eq
        lookup_filter_key [where Q = "\<lambda>k. \<not> hasPrefix k (ExactKey [authoritiesPrefix, t])"])
  show ?thesis
    using own other inactive listing deletion by blast
qed

theorem type_ranges_do_not_leak_witness:
  "type_name_ok ''foo'' \<and> type_name_ok ''foo_some_suffix'' \<and>
   CheckType test_services ''foo'' = None \<and>
   fst (GetCertAuthorities test_services ''foo'' True backend_foo) =
     Inr [Some \<lparr>GetType = ''foo'', GetName = ''a'', SigningKeys = [''secret''], GetRoleMap = [],
                GetRevision = 2, GetResourceID = 2, Expiry = 0\<rparr>] \<and>
   lookup (activeKey \<lparr>Type = ''foo'', DomainName = ''a''\<rparr>)
     (items (snd (DeleteAllCertAuthorities ''foo'' backend_foo))) = None \<and>
   lookup (activeKey \<lparr>Type = ''foo_some_suffix'', DomainName = ''b''\<rparr>)
     (items (snd (DeleteAllCertAuthorities ''foo'' backend_foo))) =
     Some (test_item ''/authorities/foo_some_suffix/b'' ''{foo_some_suffix:b:secret'' 3) \<and>
   lookup (inactiveKey foo_x) (items (snd (DeleteAllCertAuthorities ''foo'' backend_foo))) =
     Some (test_item ''/authorities/deactivated/foo/x'' ''{foo:x:secret'' 1)"
proof -
  have t: "type_name_ok ''foo''"
    by (simp add: type_name_ok_def Separator_def deactivatedPrefix_def)
  have t': "type_name_ok ''foo_some_suffix''"
    by (simp add: type_name_ok_def Separator_def deactivatedPrefix_def)
  have ne: "''foo'' \<noteq> ''foo_some_suffix''"
    by simp
  have chk: "CheckType test_services ''foo'' = None"
    by (simp add: test_services_def)
  note r = type_ranges_do_not_leak [OF t t' ne, where s = backend_foo and env = test_services
      and l = True and cid = foo_x]
  have listing: "fst (GetCertAuthorities test_services ''foo'' True backend_foo) =
     Inr [Some \<lparr>GetType = ''foo'', GetName = ''a'', SigningKeys = [''secret''], GetRoleMap = [],
                GetRevision = 2, GetResourceID = 2, Expiry = 0\<rparr>]"
    using r [of "''a''"] chk
    by (simp add: ExactKey_type_eq hasPrefix_def backend_foo_def test_item_def entry_def
        UnmarshalItem_def test_services_def test_unmarshal_def field_def after_field_def
        setSigningKeys_def)
  have d1: "lookup (activeKey \<lparr>Type = ''foo'', DomainName = ''a''\<rparr>)
     (items (snd (DeleteAllCertAuthorities ''foo'' backend_foo))) = None"
    using r [of "''a''"] by (simp add: case_prod_beta)
  have d2: "lookup (activeKey \<lparr>Type = ''foo_some_suffix'', DomainName = ''b''\<rparr>)
     (items (snd (DeleteAllCertAuthorities ''foo'' backend_foo))) =
     Some (test_item ''/authorities/foo_some_suffix/b'' ''{foo_some_suffix:b:secret'' 3)"
    using r [of "''b''"]
    by (simp add: case_prod_beta) (simp add: activeKey_eq backend_foo_def lookup_def test_item_def)
  have d3: "lookup (inactiveKey foo_x) (items (snd (DeleteAllCertAuthorities ''foo'' backend_foo))) =
     Some (test_item ''/authorities/deactivated/foo/x'' ''{foo:x:secret'' 1)"
    using r [of "''a''"]
    by (simp add: case_prod_beta)
       (simp add: inactiveKey_eq foo_x_def backend_foo_def lookup_def test_item_def)
  show ?thesis
    using t t' chk listing d1 d2 d3 by simp
qed

text \<open>
  Claim C1, on the code. The result of GetCertAuthorities has one entry per scanned
  item: the entry of an item that fails to decode or to validate is left nil. Over one
  corrupted item and three valid ones the call returns four entries, the first of them
  nil, not the three valid authorities alone.
\<close>

theorem listing_keeps_nil_entry_for_corrupted_item:
  "GetCertAuthorities test_services ''host'' True backend_corrupt =
     (Inr [None,
           Some \<lparr>GetType = ''host'', GetName = ''b'', SigningKeys = [''secret''],
                 GetRoleMap = [], GetRevision = 2, GetResourceID = 2, Expiry = 0\<rparr>,
           Some \<lparr>GetType = ''host'', GetName = ''c'', SigningKeys = [''secret''],
                 GetRoleMap = [], GetRevision = 3, GetResourceID = 3, Expiry = 0\<rparr>,
           Some \<lparr>GetType = ''host'', GetName = ''d'', SigningKeys = [''secret''],
                 GetRoleMap = [], GetRevision = 4, GetResourceID = 4, Expiry = 0\<rparr>],
      backend_corrupt)"
  by (simp add: get_all_entries ExactKey_type_eq hasPrefix_def backend_corrupt_def
      test_item_def entry_def UnmarshalItem_def test_services_def test_unmarshal_def
      field_def after_field_def setSigningKeys_def)

end
